theory Spec2Isabelle
  imports Main "HOL-Library.Word"
begin

section \<open>Telegram relay bot (\<^verbatim>\<open>src/bot.py\<close>): a shallow embedding\<close>

text \<open>
  The bot keeps one process-wide dictionary \<^verbatim>\<open>user_context\<close> from user ids to session
  dictionaries and reacts to six kinds of update. The application is built with the
  framework's defaults, so updates are handled one after the other: a handler is modelled
  as a function from the dictionary before the update to the dictionary after it, together
  with the calls it issued to the outside world (transport, completion API, logger), in
  the order it issued them.

  Everything the handlers obtain from outside (clock readings, file downloads, PDF text
  extraction, the completion stream, the success or failure of a transport call made
  inside a \<^verbatim>\<open>try\<close> block) is an explicit argument, so that each \<^verbatim>\<open>except\<close> branch of
  the source is a branch of the model. Transport calls made outside a \<^verbatim>\<open>try\<close> block
  are recorded as issued and are taken to return. A completion stream is a finite list of
  items: a stream that never ends is outside the model.

  A Python \<^verbatim>\<open>str\<close> is modelled as a \<^typ>\<open>string\<close>, one \<^typ>\<open>char\<close> standing for one
  character of the source string, so that \<^verbatim>\<open>s[:4000]\<close> is \<^term>\<open>take 4000 s\<close>.
\<close>

subsection \<open>Constants\<close>

text \<open>Clock readings and durations are counted in microseconds, the resolution of
  \<^verbatim>\<open>datetime\<close>.\<close>

type_synonym time = int

definition MAX_PDF_SIZE :: int where
  "MAX_PDF_SIZE = 15 * 1024 * 1024"

definition MAX_IMAGE_SIZE :: int where
  "MAX_IMAGE_SIZE = 10 * 1024 * 1024"

definition CONTEXT_TIMEOUT_MINUTES :: int where
  "CONTEXT_TIMEOUT_MINUTES = 10"

definition timedelta_minutes :: "int \<Rightarrow> time" where
  "timedelta_minutes m = m * 60 * 1000000"

subsection \<open>Sessions and prompts\<close>

datatype role = System | User | Assistant

datatype part = Text_part string | Image_url string

datatype content = Plain string | Parts "part list"

record chat_message =
  role :: role
  content :: content

record session =
  history :: "chat_message list"
  last_seen :: time
  pdf_text :: "string option"
  image_data :: "string option"

type_synonym user_context = "int \<rightharpoonup> session"

text \<open>The dictionary literal that \<^verbatim>\<open>start_command\<close>, \<^verbatim>\<open>reset_command\<close> and the three
  message handlers all write for a new session.\<close>

definition fresh_session :: "time \<Rightarrow> session" where
  "fresh_session now = \<lparr>history = [], last_seen = now, pdf_text = None, image_data = None\<rparr>"

text \<open>Python truthiness of an optional string: \<^verbatim>\<open>None\<close> and \<^verbatim>\<open>""\<close> are false. The
  result is the string when it is true.\<close>

definition truthy :: "string option \<Rightarrow> string option" where
  "truthy v = (case v of None \<Rightarrow> None | Some s \<Rightarrow> if s = [] then None else Some s)"

subsection \<open>Updates\<close>

text \<open>The fields the handlers read. Fields that the Bot API declares optional and that
  the handlers dereference are options here, and reading through an absent one is the
  uncaught exception the source raises.\<close>

record tg_user =
  user_id :: int
  language_code :: "string option"

record tg_file =
  file_size :: "int option"
  file_id :: string

record tg_document = tg_file +
  mime_type :: "string option"

record tg_message =
  from_user :: "tg_user option"
  msg_text :: string
  document :: "tg_document option"
  photo :: "tg_file list"

record update =
  message :: "tg_message option"
  effective_chat_id :: int

subsection \<open>Calls to the outside world\<close>

type_synonym exn = string

datatype py_exception = AttributeError | IndexError | TypeError

datatype parse_mode = MARKDOWN

datatype chat_action = TYPING

datatype effect =
    Reply_text string "parse_mode option"
  | Send_chat_action int chat_action
  | Edit_message_text int int string
  | Completions_create string "chat_message list"
  | Download string
  | Logger_error string

text \<open>A chunk of the completion stream is the list of \<^verbatim>\<open>delta.content\<close> values of its
  choices; fetching the next chunk may raise instead.\<close>

datatype stream_item = Chunk "string option list" | Stream_raises exn

type_synonym byte = "8 word"

text \<open>What one handler run obtains from outside. \<^verbatim>\<open>now_idle\<close>, \<^verbatim>\<open>now_reset\<close>,
  \<^verbatim>\<open>now_create\<close> and \<^verbatim>\<open>now_touch\<close> are the readings of \<^verbatim>\<open>datetime.now()\<close> in the idle
  test, in \<^verbatim>\<open>reset_command\<close>, in the creation of a missing session and in the update of
  \<^verbatim>\<open>last_seen\<close>. \<^verbatim>\<open>download\<close> is \<^verbatim>\<open>get_file\<close> followed by \<^verbatim>\<open>download_as_bytearray\<close>;
  \<^verbatim>\<open>fitz_pages\<close> is the text of each page of the opened PDF; \<^verbatim>\<open>reply_received\<close> is the
  exception, if any, raised by the acknowledgement sent inside the \<^verbatim>\<open>try\<close> block.\<close>

record env =
  now_idle :: time
  now_reset :: time
  now_create :: time
  now_touch :: time
  completions_create :: "chat_message list \<Rightarrow> exn + stream_item list"
  reply_placeholder :: "exn + int"
  edit_message_text :: "string \<Rightarrow> exn option"
  download :: "string \<Rightarrow> exn + byte list"
  fitz_pages :: "byte list \<Rightarrow> exn + string list"
  reply_received :: "exn option"

record outcome =
  ctx_out :: user_context
  effects :: "effect list"
  uncaught :: "py_exception option"

definition returns :: "user_context \<Rightarrow> effect list \<Rightarrow> outcome" where
  "returns ctx effs = \<lparr>ctx_out = ctx, effects = effs, uncaught = None\<rparr>"

definition raises :: "py_exception \<Rightarrow> user_context \<Rightarrow> effect list \<Rightarrow> outcome" where
  "raises e ctx effs = \<lparr>ctx_out = ctx, effects = effs, uncaught = Some e\<rparr>"

subsection \<open>Localisation\<close>

definition get_user_language :: "update \<Rightarrow> string" where
  "get_user_language upd =
     (case message upd of
        None \<Rightarrow> ''en''
      | Some m \<Rightarrow>
          (case from_user m of
             None \<Rightarrow> ''en''
           | Some u \<Rightarrow>
               (case truthy (language_code u) of None \<Rightarrow> ''en'' | Some lc \<Rightarrow> lc)))"

text \<open>The inner dictionary of \<^verbatim>\<open>translations\<close>. The two size notices are f-strings over
  \<^verbatim>\<open>MAX_PDF_SIZE / 1024 / 1024\<close> and \<^verbatim>\<open>MAX_IMAGE_SIZE / 1024 / 1024\<close>, which Python
  formats as \<^verbatim>\<open>15.0\<close> and \<^verbatim>\<open>10.0\<close>.\<close>

definition en_strings :: "(string \<times> string) list" where
  "en_strings =
    [(''welcome'', ''Welcome! I'm an AI assistant. I can help you with text, images, and PDFs. How can I assist you?''),
     (''help'',
        ''Here's what I can do:\<newline>\<newline>'' @
        ''- *Text Messages*: Chat with me in any language.\<newline>'' @
        ''- *Image Uploads*: Send an image, and I'll analyze it.\<newline>'' @
        ''- *PDF Uploads*: Send a PDF, and I'll answer questions about it.\<newline>\<newline>'' @
        ''Use /reset to clear our conversation history.''),
     (''reset'', ''Our conversation history has been cleared.''),
     (''pdf_received'', ''Thank you for the PDF. I'm processing it now. Please ask me a question about its content.''),
     (''pdf_too_large'', ''The PDF file is too large. Please send a file smaller than 15.0 MB.''),
     (''image_too_large'', ''The image file is too large. Please send a file smaller than 10.0 MB.''),
     (''unsupported_file'', ''Sorry, I only support PDF and image files.''),
     (''error_processing'', ''Sorry, I encountered an error while processing your request. Please try again.''),
     (''thinking'', ''Thinking...''),
     (''image_received'', ''I've received your image. What would you like to know about it?'')]"

definition translations_dict :: "(string \<times> (string \<times> string) list) list" where
  "translations_dict = [(''en'', en_strings)]"

text \<open>\<^verbatim>\<open>translations.get(lang, translations["en"]).get(key, "")\<close>; the default of the outer
  lookup is the entry stored under \<^verbatim>\<open>"en"\<close>.\<close>

definition get_translation :: "string \<Rightarrow> string \<Rightarrow> string" where
  "get_translation lang key =
     (let table = (case map_of translations_dict lang of None \<Rightarrow> en_strings | Some t \<Rightarrow> t)
      in case map_of table key of None \<Rightarrow> [] | Some s \<Rightarrow> s)"

subsection \<open>Commands\<close>

definition start_command :: "time \<Rightarrow> update \<Rightarrow> user_context \<Rightarrow> outcome" where
  "start_command now upd ctx =
     (case message upd of
        None \<Rightarrow> raises AttributeError ctx []
      | Some m \<Rightarrow>
          (case from_user m of
             None \<Rightarrow> raises AttributeError ctx []
           | Some u \<Rightarrow>
               returns (ctx(user_id u \<mapsto> fresh_session now))
                 [Reply_text (get_translation (get_user_language upd) ''welcome'') None]))"

definition help_command :: "update \<Rightarrow> user_context \<Rightarrow> outcome" where
  "help_command upd ctx =
     (case message upd of
        None \<Rightarrow> raises AttributeError ctx []
      | Some m \<Rightarrow>
          returns ctx [Reply_text (get_translation (get_user_language upd) ''help'') (Some MARKDOWN)])"

definition reset_command :: "time \<Rightarrow> update \<Rightarrow> user_context \<Rightarrow> outcome" where
  "reset_command now upd ctx =
     (case message upd of
        None \<Rightarrow> raises AttributeError ctx []
      | Some m \<Rightarrow>
          (case from_user m of
             None \<Rightarrow> raises AttributeError ctx []
           | Some u \<Rightarrow>
               returns
                 (if ctx (user_id u) \<noteq> None then ctx(user_id u \<mapsto> fresh_session now) else ctx)
                 [Reply_text (get_translation (get_user_language upd) ''reset'') None]))"

subsection \<open>Text turns\<close>

definition idle_expired :: "time \<Rightarrow> session option \<Rightarrow> bool" where
  "idle_expired now so =
     (case so of
        None \<Rightarrow> False
      | Some s \<Rightarrow> now - last_seen s > timedelta_minutes CONTEXT_TIMEOUT_MINUTES)"

definition system_prompt :: chat_message where
  "system_prompt = \<lparr>role = System, content = Plain ''You are a helpful assistant.''\<rparr>"

text \<open>Lines 125 to 142: the message list, and the session after the pending image, if one
  was used, has been set to \<^verbatim>\<open>None\<close>.\<close>

definition assemble :: "session \<Rightarrow> string \<Rightarrow> chat_message list \<times> session" where
  "assemble s prompt =
     (let messages = [system_prompt] @ history s
      in case truthy (image_data s) of
           Some img \<Rightarrow>
             (messages @
                [\<lparr>role = User,
                  content = Parts [Text_part prompt,
                                   Image_url (''data:image/jpeg;base64,'' @ img)]\<rparr>],
              s\<lparr>image_data := None\<rparr>)
         | None \<Rightarrow>
             (case truthy (pdf_text s) of
                Some txt \<Rightarrow>
                  (messages @
                     [\<lparr>role = System,
                       content = Plain (''Use the following content from a PDF to answer: '' @
                                        take 4000 txt)\<rparr>,
                      \<lparr>role = User, content = Plain prompt\<rparr>],
                   s)
              | None \<Rightarrow> (messages @ [\<lparr>role = User, content = Plain prompt\<rparr>], s)))"

text \<open>The loop over the stream, lines 155 to 160: the calls issued and either the exception
  that ended the loop or the accumulated reply.\<close>

fun consume ::
  "(string \<Rightarrow> exn option) \<Rightarrow> int \<Rightarrow> int \<Rightarrow> stream_item list \<Rightarrow> string \<Rightarrow> effect list \<times> (exn + string)"
where
  "consume edit chat mid [] full_response = ([], Inr full_response)"
| "consume edit chat mid (Stream_raises e # rest) full_response = ([], Inl e)"
| "consume edit chat mid (Chunk [] # rest) full_response = ([], Inl ''list index out of range'')"
| "consume edit chat mid (Chunk (delta # choices) # rest) full_response =
     (case truthy delta of
        None \<Rightarrow> consume edit chat mid rest full_response
      | Some piece \<Rightarrow>
          (let full_response' = full_response @ piece
           in case edit full_response' of
                Some e \<Rightarrow> ([Edit_message_text chat mid full_response'], Inl e)
              | None \<Rightarrow>
                  (let (effs, r) = consume edit chat mid rest full_response'
                   in (Edit_message_text chat mid full_response' # effs, r))))"

text \<open>The body of the \<^verbatim>\<open>try\<close> block up to the end of the loop, lines 145 to 160.\<close>

definition respond :: "env \<Rightarrow> int \<Rightarrow> chat_message list \<Rightarrow> effect list \<times> (exn + string)" where
  "respond env chat messages =
     (case completions_create env messages of
        Inl e \<Rightarrow> ([Completions_create ''gpt-4o-mini'' messages], Inl e)
      | Inr response \<Rightarrow>
          (case reply_placeholder env of
             Inl e \<Rightarrow>
               ([Completions_create ''gpt-4o-mini'' messages, Reply_text ''...'' None], Inl e)
           | Inr mid \<Rightarrow>
               (let (effs, r) = consume (edit_message_text env) chat mid response []
                in ([Completions_create ''gpt-4o-mini'' messages, Reply_text ''...'' None] @ effs,
                    r))))"

definition handle_text_message :: "env \<Rightarrow> update \<Rightarrow> user_context \<Rightarrow> outcome" where
  "handle_text_message env upd ctx =
     (case message upd of
        None \<Rightarrow> raises AttributeError ctx []
      | Some m \<Rightarrow>
          (case from_user m of
             None \<Rightarrow> raises AttributeError ctx []
           | Some u \<Rightarrow>
               (let uid = user_id u;
                    lang = get_user_language upd;
                    r = (if idle_expired (now_idle env) (ctx uid)
                         then reset_command (now_reset env) upd ctx
                         else returns ctx []);
                    ctx1 = ctx_out r;
                    s0 = (case ctx1 uid of
                            None \<Rightarrow> fresh_session (now_create env)
                          | Some s \<Rightarrow> s);
                    s1 = s0\<lparr>last_seen := now_touch env\<rparr>;
                    prompt = msg_text m;
                    (messages, s2) = assemble s1 prompt;
                    (effs, res) = respond env (effective_chat_id upd) messages;
                    sent = effects r @ [Send_chat_action (effective_chat_id upd) TYPING] @ effs
                in case res of
                     Inr full_response \<Rightarrow>
                       returns
                         (ctx1(uid \<mapsto>
                            s2\<lparr>history := history s2 @
                                 [\<lparr>role = User, content = Plain prompt\<rparr>,
                                  \<lparr>role = Assistant, content = Plain full_response\<rparr>]\<rparr>))
                         sent
                   | Inl e \<Rightarrow>
                       returns (ctx1(uid \<mapsto> s2))
                         (sent @
                            [Logger_error (''Error generating response: '' @ e),
                             Reply_text (get_translation lang ''error_processing'') None]))))"

subsection \<open>Attachments\<close>

text \<open>\<^verbatim>\<open>base64.b64encode\<close> of the standard library, followed by the decoding of its ASCII
  output to a \<^verbatim>\<open>str\<close>.\<close>

definition b64_alphabet :: string where
  "b64_alphabet = ''ABCDEFGHIJKLMNOPQRSTUVWXYZabcdefghijklmnopqrstuvwxyz0123456789+/''"

definition b64_char :: "nat \<Rightarrow> char" where
  "b64_char n = b64_alphabet ! (n mod 64)"

fun b64encode :: "byte list \<Rightarrow> string" where
  "b64encode [] = []"
| "b64encode [a] =
     (let n = unat a * 65536
      in [b64_char (n div 262144), b64_char (n div 4096), CHR ''='', CHR ''=''])"
| "b64encode [a, b] =
     (let n = unat a * 65536 + unat b * 256
      in [b64_char (n div 262144), b64_char (n div 4096), b64_char (n div 64), CHR ''=''])"
| "b64encode (a # b # c # rest) =
     (let n = unat a * 65536 + unat b * 256 + unat c
      in [b64_char (n div 262144), b64_char (n div 4096), b64_char (n div 64), b64_char n])
     @ b64encode rest"

definition handle_document_message :: "env \<Rightarrow> update \<Rightarrow> user_context \<Rightarrow> outcome" where
  "handle_document_message env upd ctx =
     (case message upd of
        None \<Rightarrow> raises AttributeError ctx []
      | Some m \<Rightarrow>
     (case from_user m of
        None \<Rightarrow> raises AttributeError ctx []
      | Some u \<Rightarrow>
     (case document m of
        None \<Rightarrow> raises AttributeError ctx []
      | Some doc \<Rightarrow>
          (let uid = user_id u; lang = get_user_language upd
           in if mime_type doc \<noteq> Some ''application/pdf''
              then returns ctx [Reply_text (get_translation lang ''unsupported_file'') None]
              else
                (case file_size doc of
                   None \<Rightarrow> raises TypeError ctx []
                 | Some declared \<Rightarrow>
                     if declared > MAX_PDF_SIZE
                     then returns ctx [Reply_text (get_translation lang ''pdf_too_large'') None]
                     else
                       (case download env (file_id doc) of
                          Inl e \<Rightarrow>
                            returns ctx
                              [Download (file_id doc),
                               Logger_error (''Error processing PDF: '' @ e),
                               Reply_text (get_translation lang ''error_processing'') None]
                        | Inr file_bytes \<Rightarrow>
                            (case fitz_pages env file_bytes of
                               Inl e \<Rightarrow>
                                 returns ctx
                                   [Download (file_id doc),
                                    Logger_error (''Error processing PDF: '' @ e),
                                    Reply_text (get_translation lang ''error_processing'') None]
                             | Inr pages \<Rightarrow>
                                 (let s0 = (case ctx uid of
                                              None \<Rightarrow> fresh_session (now_create env)
                                            | Some s \<Rightarrow> s);
                                      ctx' = ctx(uid \<mapsto>
                                               s0\<lparr>pdf_text := Some (concat pages),
                                                  image_data := None\<rparr>)
                                  in case reply_received env of
                                       None \<Rightarrow>
                                         returns ctx'
                                           [Download (file_id doc),
                                            Reply_text (get_translation lang ''pdf_received'') None]
                                     | Some e \<Rightarrow>
                                         returns ctx'
                                           [Download (file_id doc),
                                            Reply_text (get_translation lang ''pdf_received'') None,
                                            Logger_error (''Error processing PDF: '' @ e),
                                            Reply_text (get_translation lang ''error_processing'')
                                              None]))))))))"

definition handle_photo_message :: "env \<Rightarrow> update \<Rightarrow> user_context \<Rightarrow> outcome" where
  "handle_photo_message env upd ctx =
     (case message upd of
        None \<Rightarrow> raises AttributeError ctx []
      | Some m \<Rightarrow>
     (case from_user m of
        None \<Rightarrow> raises AttributeError ctx []
      | Some u \<Rightarrow>
     (case rev (photo m) of
        [] \<Rightarrow> raises IndexError ctx []
      | largest # smaller \<Rightarrow>
          (let uid = user_id u; lang = get_user_language upd
           in case file_size largest of
                None \<Rightarrow> raises TypeError ctx []
              | Some declared \<Rightarrow>
                  if declared > MAX_IMAGE_SIZE
                  then returns ctx [Reply_text (get_translation lang ''image_too_large'') None]
                  else
                    (case download env (file_id largest) of
                       Inl e \<Rightarrow>
                         returns ctx
                           [Download (file_id largest),
                            Logger_error (''Error processing image: '' @ e),
                            Reply_text (get_translation lang ''error_processing'') None]
                     | Inr file_bytes \<Rightarrow>
                         (let s0 = (case ctx uid of
                                      None \<Rightarrow> fresh_session (now_create env)
                                    | Some s \<Rightarrow> s);
                              ctx' = ctx(uid \<mapsto>
                                       s0\<lparr>image_data := Some (b64encode file_bytes),
                                          pdf_text := None\<rparr>)
                          in case reply_received env of
                               None \<Rightarrow>
                                 returns ctx'
                                   [Download (file_id largest),
                                    Reply_text (get_translation lang ''image_received'') None]
                             | Some e \<Rightarrow>
                                 returns ctx'
                                   [Download (file_id largest),
                                    Reply_text (get_translation lang ''image_received'') None,
                                    Logger_error (''Error processing image: '' @ e),
                                    Reply_text (get_translation lang ''error_processing'')
                                      None]))))))"

subsection \<open>The dispatcher\<close>

text \<open>The six handlers registered in \<^verbatim>\<open>main\<close>. An exception that leaves a handler is logged
  by the framework and the next update is handled on the dictionary as the handler left
  it.\<close>

datatype event =
    Start time update
  | Help update
  | Reset time update
  | Text_message env update
  | Document_message env update
  | Photo_message env update

fun dispatch :: "event \<Rightarrow> user_context \<Rightarrow> outcome" where
  "dispatch (Start now upd) ctx = start_command now upd ctx"
| "dispatch (Help upd) ctx = help_command upd ctx"
| "dispatch (Reset now upd) ctx = reset_command now upd ctx"
| "dispatch (Text_message env upd) ctx = handle_text_message env upd ctx"
| "dispatch (Document_message env upd) ctx = handle_document_message env upd ctx"
| "dispatch (Photo_message env upd) ctx = handle_photo_message env upd ctx"

fun run :: "event list \<Rightarrow> user_context \<Rightarrow> user_context" where
  "run [] ctx = ctx"
| "run (ev # evs) ctx = run evs (ctx_out (dispatch ev ctx))"

subsection \<open>Observations\<close>

text \<open>The message lists submitted to the completion API, in order.\<close>

fun submitted :: "effect list \<Rightarrow> chat_message list list" where
  "submitted [] = []"
| "submitted (Completions_create model messages # effs) = messages # submitted effs"
| "submitted (eff # effs) = submitted effs"

text \<open>The reply a stream carries: the non-empty \<^verbatim>\<open>delta.content\<close> of the first choice of
  each chunk, concatenated.\<close>

fun streamed_text :: "stream_item list \<Rightarrow> string" where
  "streamed_text [] = []"
| "streamed_text (Chunk (delta # choices) # rest) =
     (case truthy delta of None \<Rightarrow> [] | Some piece \<Rightarrow> piece) @ streamed_text rest"
| "streamed_text (item # rest) = streamed_text rest"

text \<open>The session a text turn works on once lines 110 to 120 have run: a new one where the
  user had none, a new one where the idle test fired, the stored one otherwise, with
  \<^verbatim>\<open>last_seen\<close> set.\<close>

definition entering :: "env \<Rightarrow> session option \<Rightarrow> session" where
  "entering env so =
     (case so of
        None \<Rightarrow> fresh_session (now_create env)
      | Some s \<Rightarrow>
          if idle_expired (now_idle env) (Some s) then fresh_session (now_reset env) else s)
     \<lparr>last_seen := now_touch env\<rparr>"

definition exclusive :: "session \<Rightarrow> bool" where
  "exclusive s = (pdf_text s = None \<or> image_data s = None)"

text \<open>The image URLs a message list carries, in order.\<close>

fun part_images :: "part \<Rightarrow> string list" where
  "part_images (Text_part t) = []"
| "part_images (Image_url url) = [url]"

fun content_images :: "content \<Rightarrow> string list" where
  "content_images (Plain t) = []"
| "content_images (Parts ps) = concat (map part_images ps)"

definition images :: "chat_message list \<Rightarrow> string list" where
  "images msgs = concat (map (\<lambda>msg. content_images (content msg)) msgs)"

subsection \<open>Example inputs\<close>

definition alice :: tg_user where
  "alice = \<lparr>user_id = 1, language_code = Some ''de''\<rparr>"

definition text_update :: "string \<Rightarrow> update" where
  "text_update t =
     \<lparr>message = Some \<lparr>from_user = Some alice, msg_text = t, document = None, photo = []\<rparr>,
      effective_chat_id = 7\<rparr>"

definition document_update :: "string \<Rightarrow> int \<Rightarrow> update" where
  "document_update mime n =
     \<lparr>message = Some
        \<lparr>from_user = Some alice, msg_text = [],
         document = Some \<lparr>file_size = Some n, file_id = ''doc-1'', mime_type = Some mime\<rparr>,
         photo = []\<rparr>,
      effective_chat_id = 7\<rparr>"

definition photo_update :: "int \<Rightarrow> update" where
  "photo_update n =
     \<lparr>message = Some
        \<lparr>from_user = Some alice, msg_text = [], document = None,
         photo = [\<lparr>file_size = Some 1000, file_id = ''thumb''\<rparr>,
                  \<lparr>file_size = Some n, file_id = ''full''\<rparr>]\<rparr>,
      effective_chat_id = 7\<rparr>"

text \<open>An outside world in which every clock reading is \<open>now\<close>, every call succeeds and
  the completion streams \<^verbatim>\<open>he\<close>, an empty delta and \<^verbatim>\<open>llo\<close>; and the same world with
  a completion API that refuses the request.\<close>

definition calm_env :: "time \<Rightarrow> env" where
  "calm_env now =
     \<lparr>now_idle = now, now_reset = now, now_create = now, now_touch = now,
      completions_create = (\<lambda>messages. Inr [Chunk [Some ''he''], Chunk [None], Chunk [Some ''llo'']]),
      reply_placeholder = Inr 5,
      edit_message_text = (\<lambda>t. None),
      download = (\<lambda>f. Inr [77, 97, 110]),
      fitz_pages = (\<lambda>b. Inr [''page one. '', ''page two.'']),
      reply_received = None\<rparr>"

definition failing_env :: "time \<Rightarrow> env" where
  "failing_env now = (calm_env now)\<lparr>completions_create := (\<lambda>messages. Inl ''timeout'')\<rparr>"

text \<open>A world in which the completion stream breaks after its first chunk.\<close>

definition stalling_env :: "time \<Rightarrow> env" where
  "stalling_env now =
     (calm_env now)\<lparr>completions_create :=
        (\<lambda>messages. Inr [Chunk [Some ''he''], Stream_raises ''connection lost''])\<rparr>"

definition corrupt_env :: "time \<Rightarrow> env" where
  "corrupt_env now = (calm_env now)\<lparr>fitz_pages := (\<lambda>b. Inl ''cannot open broken document'')\<rparr>"

definition greeting :: "chat_message list" where
  "greeting = [\<lparr>role = User, content = Plain ''hi''\<rparr>,
               \<lparr>role = Assistant, content = Plain ''hello''\<rparr>]"

definition with_document :: session where
  "with_document =
     \<lparr>history = greeting, last_seen = 0, pdf_text = Some ''contract text'', image_data = None\<rparr>"

definition with_image :: session where
  "with_image = \<lparr>history = greeting, last_seen = 0, pdf_text = None, image_data = Some ''TWFu''\<rparr>"

text \<open>A photo followed by a PDF, sent by a user the bot has not seen before, and the
  session this leaves.\<close>

definition uploads :: "event list" where
  "uploads = [Photo_message (calm_env 0) (photo_update 2048),
              Document_message (calm_env 0) (document_update ''application/pdf'' 2048)]"

definition after_photo :: session where
  "after_photo = \<lparr>history = [], last_seen = 0, pdf_text = None, image_data = Some ''TWFu''\<rparr>"

definition after_uploads :: session where
  "after_uploads =
     \<lparr>history = [], last_seen = 0, pdf_text = Some ''page one. page two.'', image_data = None\<rparr>"

text \<open>The extracted text of the 6000-character document of the specification's scenario, and
  a session holding it.\<close>

definition abc_document :: string where
  "abc_document = concat (replicate 2000 ''ABC'')"

definition with_abc_document :: session where
  "with_abc_document =
     \<lparr>history = greeting, last_seen = 0, pdf_text = Some abc_document, image_data = None\<rparr>"

section \<open>Properties\<close>

subsection \<open>Auxiliary facts\<close>

lemma map_of_translations_dict:
  "map_of translations_dict lang = (if lang = ''en'' then Some en_strings else None)"
  by (simp add: translations_dict_def)

lemma submitted_append: "submitted (xs @ ys) = submitted xs @ submitted ys"
  by (induction xs rule: submitted.induct) simp_all

lemma consume_submitted:
  "consume edit chat mid items acc = (effs, r) \<Longrightarrow> submitted effs = []"
  by (induction edit chat mid items acc arbitrary: effs r rule: consume.induct)
     (auto simp: Let_def split: option.splits prod.splits)

lemma consume_reply:
  "consume edit chat mid items acc = (effs, Inr full) \<Longrightarrow> full = acc @ streamed_text items"
  by (induction edit chat mid items acc arbitrary: effs rule: consume.induct)
     (auto simp: Let_def split: option.splits prod.splits)

lemma respond_submitted: "submitted (fst (respond env chat messages)) = [messages]"
  by (auto simp: respond_def dest: consume_submitted split: sum.splits prod.splits)

lemma respond_reply:
  assumes "respond env chat messages = (effs, Inr full)"
  shows "\<exists>items. completions_create env messages = Inr items \<and> full = streamed_text items"
  using assms consume_reply [of "edit_message_text env" chat _ _ "[]" _ full]
  by (auto simp: respond_def split: sum.splits prod.splits)

lemma assemble_fields:
  "history (snd (assemble s p)) = history s"
  "last_seen (snd (assemble s p)) = last_seen s"
  "pdf_text (snd (assemble s p)) = pdf_text s"
  "image_data (snd (assemble s p)) = (if truthy (image_data s) = None then image_data s else None)"
  by (simp_all add: assemble_def Let_def split: option.splits)

text \<open>The text handler on an update that has a message and a sender.\<close>

lemma handle_text_message_wf:
  assumes "message upd = Some m" and "from_user m = Some u"
  shows "handle_text_message env upd ctx =
     (let uid = user_id u;
          idle = idle_expired (now_idle env) (ctx uid);
          asm = assemble (entering env (ctx uid)) (msg_text m);
          rsp = respond env (effective_chat_id upd) (fst asm);
          sent = (if idle then [Reply_text (get_translation (get_user_language upd) ''reset'') None]
                  else [])
                 @ [Send_chat_action (effective_chat_id upd) TYPING] @ fst rsp
      in case snd rsp of
           Inr full \<Rightarrow>
             returns (ctx(uid \<mapsto> (snd asm)\<lparr>history := history (snd asm) @
                        [\<lparr>role = User, content = Plain (msg_text m)\<rparr>,
                         \<lparr>role = Assistant, content = Plain full\<rparr>]\<rparr>)) sent
         | Inl e \<Rightarrow>
             returns (ctx(uid \<mapsto> snd asm))
               (sent @ [Logger_error (''Error generating response: '' @ e),
                        Reply_text (get_translation (get_user_language upd) ''error_processing'') None]))"
  using assms
  by (auto simp: handle_text_message_def entering_def reset_command_def returns_def Let_def
                 idle_expired_def
           split: prod.splits sum.splits option.splits)

subsection \<open>Localisation\<close>

text \<open>
  Claim C10. Whatever the language code, the lookup returns what the English table holds
  for the key, and the empty string for a key the table does not hold. The language a
  handler passes is the sender's language code, so every handler gets the English text.
\<close>

theorem get_translation_english:
  "get_translation lang key = (case map_of en_strings key of None \<Rightarrow> [] | Some s \<Rightarrow> s)
   \<and> get_translation lang key = get_translation ''en'' key
   \<and> get_translation (get_user_language upd) key = get_translation ''en'' key
   \<and> (key \<notin> set (map fst en_strings) \<longrightarrow> get_translation lang key = [])"
proof -
  have eq: "\<And>l. get_translation l key = (case map_of en_strings key of None \<Rightarrow> [] | Some s \<Rightarrow> s)"
    by (simp add: get_translation_def map_of_translations_dict)
  have "key \<notin> set (map fst en_strings) \<Longrightarrow> map_of en_strings key = None"
    by (simp add: map_of_eq_None_iff)
  with eq show ?thesis by simp
qed

theorem get_translation_english_witness:
  "''bye'' \<notin> set (map fst en_strings) \<and> get_translation ''fr'' ''bye'' = []
   \<and> get_translation ''fr'' ''reset'' = ''Our conversation history has been cleared.''"
proof -
  have a: "''bye'' \<notin> set (map fst en_strings)"
    by (simp add: en_strings_def)
  have b: "map_of en_strings ''reset'' = Some ''Our conversation history has been cleared.''"
    by (simp add: en_strings_def)
  have c: "get_translation ''fr'' ''bye'' = []"
    using get_translation_english [of "''fr''" "''bye''"] a by blast
  have "get_translation ''fr'' ''reset'' =
          (case map_of en_strings ''reset'' of None \<Rightarrow> [] | Some s \<Rightarrow> s)"
    using get_translation_english [of "''fr''" "''reset''"] by blast
  with a b c show ?thesis by simp
qed

subsection \<open>Reset\<close>

text \<open>
  Claim C4. \<^verbatim>\<open>/reset\<close> sends the reset confirmation and nothing else. If the sender had
  a session, whatever it held, the session is afterwards the new one: empty history,
  no PDF text, no image. If the sender had none, none is created.
\<close>

theorem reset_command_clears:
  assumes "message upd = Some m" and "from_user m = Some u"
  shows "effects (reset_command now upd ctx) =
           [Reply_text (get_translation (get_user_language upd) ''reset'') None]
       \<and> get_translation (get_user_language upd) ''reset'' =
           ''Our conversation history has been cleared.''
       \<and> uncaught (reset_command now upd ctx) = None
       \<and> (case ctx_out (reset_command now upd ctx) (user_id u) of
             None \<Rightarrow> ctx (user_id u) = None
           | Some s' \<Rightarrow>
               ctx (user_id u) \<noteq> None \<and> history s' = [] \<and> pdf_text s' = None \<and>
               image_data s' = None \<and> last_seen s' = now)"
proof -
  have "get_translation (get_user_language upd) ''reset'' =
          ''Our conversation history has been cleared.''"
    by (simp add: get_translation_def map_of_translations_dict en_strings_def)
  with assms show ?thesis
    by (simp add: reset_command_def returns_def fresh_session_def)
qed

theorem reset_command_clears_witness:
  "message (text_update ''/reset'') = Some \<lparr>from_user = Some alice, msg_text = ''/reset'',
                                             document = None, photo = []\<rparr>
   \<and> effects (reset_command 5 (text_update ''/reset'') [1 \<mapsto> with_document]) =
       [Reply_text ''Our conversation history has been cleared.'' None]
   \<and> map_option history (ctx_out (reset_command 5 (text_update ''/reset'') [1 \<mapsto> with_document]) 1)
       = Some []"
proof -
  let ?m = "\<lparr>from_user = Some alice, msg_text = ''/reset'', document = None, photo = []\<rparr>"
  have m: "message (text_update ''/reset'') = Some ?m"
    by (simp add: text_update_def)
  have u: "from_user ?m = Some alice"
    by simp
  have uid: "user_id alice = 1"
    by (simp add: alice_def)
  from reset_command_clears [OF m u, of 5 "[1 \<mapsto> with_document]"] m uid
  show ?thesis
    by (auto split: option.splits)
qed

subsection \<open>Documents that are not ingested\<close>

lemma notices:
  "get_translation lang ''unsupported_file'' = ''Sorry, I only support PDF and image files.''"
  "get_translation lang ''pdf_too_large'' =
     ''The PDF file is too large. Please send a file smaller than 15.0 MB.''"
  "get_translation lang ''image_too_large'' =
     ''The image file is too large. Please send a file smaller than 10.0 MB.''"
  "get_translation lang ''error_processing'' =
     ''Sorry, I encountered an error while processing your request. Please try again.''"
  "get_translation lang ''reset'' = ''Our conversation history has been cleared.''"
  by (simp_all add: get_translation_def map_of_translations_dict en_strings_def)

text \<open>
  Claim C6. The document handler tests the declared MIME type first and the declared size
  second. A document that is not declared as PDF gets the unsupported-file notice; a PDF
  declared larger than 15 MB gets the too-large notice; a PDF that is downloaded and cannot
  be decoded gets the generic error notice. In all three cases the handler returns the
  dictionary it was given, so no session, and no pending attachment, has changed.
\<close>

theorem document_rejections:
  assumes "message upd = Some m" and "from_user m = Some u" and "document m = Some doc"
  shows "(mime_type doc \<noteq> Some ''application/pdf'' \<longrightarrow>
            handle_document_message env upd ctx =
              returns ctx [Reply_text ''Sorry, I only support PDF and image files.'' None])
       \<and> (mime_type doc = Some ''application/pdf'' \<and> file_size doc = Some n \<and>
          n > 15 * 1024 * 1024 \<longrightarrow>
            handle_document_message env upd ctx =
              returns ctx
                [Reply_text ''The PDF file is too large. Please send a file smaller than 15.0 MB.''
                   None])
       \<and> (mime_type doc = Some ''application/pdf'' \<and> file_size doc = Some n \<and>
          n \<le> 15 * 1024 * 1024 \<and> download env (file_id doc) = Inr file_bytes \<and>
          fitz_pages env file_bytes = Inl e \<longrightarrow>
            handle_document_message env upd ctx =
              returns ctx
                [Download (file_id doc),
                 Logger_error (''Error processing PDF: '' @ e),
                 Reply_text
                   ''Sorry, I encountered an error while processing your request. Please try again.''
                   None])"
  using assms
  by (simp add: handle_document_message_def Let_def notices MAX_PDF_SIZE_def)

theorem document_rejections_witness:
  "handle_document_message (calm_env 0) (document_update ''image/png'' 2048) [1 \<mapsto> with_image] =
     returns [1 \<mapsto> with_image] [Reply_text ''Sorry, I only support PDF and image files.'' None]
   \<and> handle_document_message (calm_env 0) (document_update ''application/pdf'' (16 * 1024 * 1024))
       [1 \<mapsto> with_image] =
     returns [1 \<mapsto> with_image]
       [Reply_text ''The PDF file is too large. Please send a file smaller than 15.0 MB.'' None]
   \<and> handle_document_message (corrupt_env 0) (document_update ''application/pdf'' 2048)
       [1 \<mapsto> with_image] =
     returns [1 \<mapsto> with_image]
       [Download ''doc-1'',
        Logger_error ''Error processing PDF: cannot open broken document'',
        Reply_text
          ''Sorry, I encountered an error while processing your request. Please try again.'' None]"
proof -
  let ?msg = "\<lambda>mime n. \<lparr>from_user = Some alice, msg_text = [],
                 document = Some \<lparr>file_size = Some n, file_id = ''doc-1'', mime_type = Some mime\<rparr>,
                 photo = []\<rparr>"
  let ?doc = "\<lambda>mime n. \<lparr>file_size = Some n, file_id = ''doc-1'', mime_type = Some mime\<rparr>"
  have m: "message (document_update mime n) = Some (?msg mime n)" for mime n
    by (simp add: document_update_def)
  have u: "from_user (?msg mime n) = Some alice" for mime n
    by simp
  have d: "document (?msg mime n) = Some (?doc mime n)" for mime n
    by simp
  have "handle_document_message (calm_env 0) (document_update ''image/png'' 2048) [1 \<mapsto> with_image] =
     returns [1 \<mapsto> with_image] [Reply_text ''Sorry, I only support PDF and image files.'' None]"
    using document_rejections [OF m u d, where mime1 = "''image/png''" and n1 = 2048
                                 and env = "calm_env 0" and ctx = "[1 \<mapsto> with_image]"]
    by simp
  moreover
  have "handle_document_message (calm_env 0) (document_update ''application/pdf'' (16 * 1024 * 1024))
       [1 \<mapsto> with_image] =
     returns [1 \<mapsto> with_image]
       [Reply_text ''The PDF file is too large. Please send a file smaller than 15.0 MB.'' None]"
    using document_rejections [OF m u d, where mime1 = "''application/pdf''" and n1 = "16 * 1024 * 1024"
                                 and env = "calm_env 0" and ctx = "[1 \<mapsto> with_image]"
                                 and n = "16 * 1024 * 1024"]
    by simp
  moreover
  have "handle_document_message (corrupt_env 0) (document_update ''application/pdf'' 2048)
       [1 \<mapsto> with_image] =
     returns [1 \<mapsto> with_image]
       [Download ''doc-1'',
        Logger_error ''Error processing PDF: cannot open broken document'',
        Reply_text
          ''Sorry, I encountered an error while processing your request. Please try again.'' None]"
    using document_rejections [OF m u d, where mime1 = "''application/pdf''" and n1 = 2048
                                 and env = "corrupt_env 0" and ctx = "[1 \<mapsto> with_image]"
                                 and n = 2048 and file_bytes = "[77, 97, 110]"
                                 and e = "''cannot open broken document''"]
    by (simp add: corrupt_env_def calm_env_def)
  ultimately show ?thesis by blast
qed


subsection \<open>One pending attachment at a time\<close>

lemma exclusive_fresh: "exclusive (fresh_session now)"
  by (simp add: exclusive_def fresh_session_def)

lemma exclusive_entering:
  assumes "\<And>s. so = Some s \<Longrightarrow> exclusive s"
  shows "exclusive (entering env so)"
  using assms exclusive_fresh
  by (auto simp: entering_def exclusive_def fresh_session_def split: option.splits)

lemma exclusive_assemble: "exclusive s \<Longrightarrow> exclusive (snd (assemble s p))"
  by (auto simp: exclusive_def assemble_fields)

lemma text_exclusive:
  assumes "\<And>uid s. ctx uid = Some s \<Longrightarrow> exclusive s"
    and "ctx_out (handle_text_message env upd ctx) uid = Some s'"
  shows "exclusive s'"
proof (cases "message upd")
  case None
  with assms show ?thesis by (simp add: handle_text_message_def raises_def)
next
  case (Some m)
  show ?thesis
  proof (cases "from_user m")
    case None
    with Some assms show ?thesis by (simp add: handle_text_message_def raises_def)
  next
    case (Some u)
    let ?asm = "assemble (entering env (ctx (user_id u))) (msg_text m)"
    have ex: "exclusive (snd ?asm)"
      by (rule exclusive_assemble, rule exclusive_entering) (rule assms(1))
    then have ex': "exclusive ((snd ?asm)\<lparr>history := h\<rparr>)" for h
      by (simp add: exclusive_def)
    from assms(2) show ?thesis
      unfolding handle_text_message_wf [OF \<open>message upd = Some m\<close> Some]
      using ex ex' assms(1)
      by (auto simp: Let_def returns_def split: sum.splits if_splits)
  qed
qed

lemma document_exclusive:
  assumes "\<And>uid s. ctx uid = Some s \<Longrightarrow> exclusive s"
    and "ctx_out (handle_document_message env upd ctx) uid = Some s'"
  shows "exclusive s'"
  using assms
  by (auto simp: handle_document_message_def Let_def returns_def raises_def exclusive_def
           split: option.splits if_splits sum.splits)

lemma photo_exclusive:
  assumes "\<And>uid s. ctx uid = Some s \<Longrightarrow> exclusive s"
    and "ctx_out (handle_photo_message env upd ctx) uid = Some s'"
  shows "exclusive s'"
  using assms
  by (auto simp: handle_photo_message_def Let_def returns_def raises_def exclusive_def
           split: option.splits if_splits sum.splits list.splits)

lemma command_exclusive:
  assumes "\<And>uid s. ctx uid = Some s \<Longrightarrow> exclusive s"
  shows "ctx_out (start_command now upd ctx) uid = Some s' \<Longrightarrow> exclusive s'"
    and "ctx_out (help_command upd ctx) uid = Some s' \<Longrightarrow> exclusive s'"
    and "ctx_out (reset_command now upd ctx) uid = Some s' \<Longrightarrow> exclusive s'"
  using assms exclusive_fresh
  by (auto simp: start_command_def help_command_def reset_command_def returns_def raises_def
           split: option.splits if_splits)

lemma dispatch_exclusive:
  assumes "\<And>uid s. ctx uid = Some s \<Longrightarrow> exclusive s"
    and "ctx_out (dispatch ev ctx) uid = Some s'"
  shows "exclusive s'"
  using assms
  by (cases ev)
     (auto intro: command_exclusive text_exclusive document_exclusive photo_exclusive)

lemma run_exclusive:
  assumes "\<And>uid s. ctx uid = Some s \<Longrightarrow> exclusive s"
    and "run evs ctx uid = Some s'"
  shows "exclusive s'"
  using assms
proof (induction evs arbitrary: ctx)
  case Nil
  then show ?case by simp
next
  case (Cons ev evs)
  show ?case
  proof (rule Cons.IH)
    show "exclusive s" if "ctx_out (dispatch ev ctx) v = Some s" for v s
      using dispatch_exclusive [of ctx ev v s] Cons.prems(1) that by blast
    show "run evs (ctx_out (dispatch ev ctx)) uid = Some s'"
      using Cons.prems(2) by simp
  qed
qed

lemma document_stores:
  "ctx_out (handle_document_message env upd ctx) uid = Some s' \<Longrightarrow>
     ctx uid = Some s' \<or> (pdf_text s' \<noteq> None \<and> image_data s' = None)"
  by (auto simp: handle_document_message_def Let_def returns_def raises_def
           split: option.splits if_splits sum.splits)

lemma photo_stores:
  "ctx_out (handle_photo_message env upd ctx) uid = Some s' \<Longrightarrow>
     ctx uid = Some s' \<or> (image_data s' \<noteq> None \<and> pdf_text s' = None)"
  by (auto simp: handle_photo_message_def Let_def returns_def raises_def
           split: option.splits if_splits sum.splits list.splits)

lemma photo_example:
  "handle_photo_message (calm_env 0) (photo_update 2048) Map.empty =
     returns [1 \<mapsto> after_photo]
       [Download ''full'',
        Reply_text ''I've received your image. What would you like to know about it?'' None]"
  by (simp add: handle_photo_message_def photo_update_def calm_env_def alice_def Let_def
        MAX_IMAGE_SIZE_def fresh_session_def b64_char_def b64_alphabet_def get_translation_def
        map_of_translations_dict en_strings_def after_photo_def)

lemma document_example:
  "handle_document_message (calm_env 0) (document_update ''application/pdf'' 2048)
     [1 \<mapsto> after_photo] =
     returns [1 \<mapsto> after_uploads]
       [Download ''doc-1'',
        Reply_text
          ''Thank you for the PDF. I'm processing it now. Please ask me a question about its content.''
          None]"
  by (simp add: handle_document_message_def document_update_def calm_env_def alice_def Let_def
        MAX_PDF_SIZE_def after_uploads_def after_photo_def get_translation_def
        map_of_translations_dict en_strings_def)

lemma run_uploads: "run uploads Map.empty 1 = Some after_uploads"
  by (simp add: uploads_def photo_example document_example returns_def)

text \<open>
  Claim C3. In every dictionary the bot can reach from the empty one, by any sequence of
  updates and whatever the outside world answers, no session holds a PDF text and an image
  payload together. A session the document handler has written holds a PDF text and no
  image; a session the photo handler has written holds an image and no PDF text; both
  hold even for a dictionary in which the two fields were set together.
\<close>

theorem attachments_exclusive:
  "(\<forall>uid s. run evs Map.empty uid = Some s \<longrightarrow> pdf_text s = None \<or> image_data s = None)
   \<and> (\<forall>uid s'. ctx_out (handle_document_message env upd ctx) uid = Some s' \<longrightarrow>
          ctx uid = Some s' \<or> (pdf_text s' \<noteq> None \<and> image_data s' = None))
   \<and> (\<forall>uid s'. ctx_out (handle_photo_message env upd ctx) uid = Some s' \<longrightarrow>
          ctx uid = Some s' \<or> (image_data s' \<noteq> None \<and> pdf_text s' = None))"
proof -
  have "exclusive s" if "run evs Map.empty uid = Some s" for uid s
    using run_exclusive [of Map.empty evs uid s] that by simp
  then show ?thesis
    using document_stores [of env upd ctx] photo_stores [of env upd ctx]
    by (simp add: exclusive_def)
qed

theorem attachments_exclusive_witness:
  "run uploads Map.empty 1 = Some after_uploads
   \<and> (pdf_text after_uploads = None \<or> image_data after_uploads = None)
   \<and> ctx_out (handle_photo_message (calm_env 0) (photo_update 2048) Map.empty) 1 = Some after_photo
   \<and> image_data after_photo \<noteq> None \<and> pdf_text after_photo = None
   \<and> ctx_out (handle_document_message (calm_env 0) (document_update ''application/pdf'' 2048)
               [1 \<mapsto> after_photo]) 1 = Some after_uploads
   \<and> pdf_text after_uploads \<noteq> None \<and> image_data after_uploads = None"
proof -
  have p: "ctx_out (handle_photo_message (calm_env 0) (photo_update 2048) Map.empty) 1
             = Some after_photo"
    by (simp add: photo_example returns_def)
  have d: "ctx_out (handle_document_message (calm_env 0) (document_update ''application/pdf'' 2048)
               [1 \<mapsto> after_photo]) 1 = Some after_uploads"
    by (simp add: document_example returns_def)
  have "\<forall>uid s. run uploads Map.empty uid = Some s \<longrightarrow> pdf_text s = None \<or> image_data s = None"
    using attachments_exclusive [of uploads "calm_env 0" "photo_update 2048" Map.empty]
    by (rule conjunct1)
  then have "pdf_text after_uploads = None \<or> image_data after_uploads = None"
    using run_uploads by (elim allE [of _ 1] allE [of _ after_uploads] impE)
  moreover have "pdf_text after_uploads \<noteq> None \<and> image_data after_uploads = None"
    by (simp add: after_uploads_def)
  moreover have "image_data after_photo \<noteq> None \<and> pdf_text after_photo = None"
    by (simp add: after_photo_def)
  ultimately show ?thesis
    using run_uploads p d by blast
qed

subsection \<open>Facts about text turns\<close>

lemma text_submitted:
  assumes "message upd = Some m" and "from_user m = Some u"
  shows "submitted (effects (handle_text_message env upd ctx)) =
           [fst (assemble (entering env (ctx (user_id u))) (msg_text m))]"
  unfolding handle_text_message_wf [OF assms]
  by (simp add: Let_def returns_def submitted_append respond_submitted split: sum.splits)

lemma text_session:
  assumes "message upd = Some m" and "from_user m = Some u"
  shows "ctx_out (handle_text_message env upd ctx) (user_id u) =
           Some (let asm = assemble (entering env (ctx (user_id u))) (msg_text m)
                 in case snd (respond env (effective_chat_id upd) (fst asm)) of
                      Inr full \<Rightarrow>
                        (snd asm)\<lparr>history := history (snd asm) @
                           [\<lparr>role = User, content = Plain (msg_text m)\<rparr>,
                            \<lparr>role = Assistant, content = Plain full\<rparr>]\<rparr>
                    | Inl e \<Rightarrow> snd asm)"
  unfolding handle_text_message_wf [OF assms]
  by (simp add: Let_def returns_def split: sum.splits)





lemma entering_history:
  "history (entering env so) =
     (case so of
        None \<Rightarrow> []
      | Some s \<Rightarrow> if idle_expired (now_idle env) (Some s) then [] else history s)"
  by (simp add: entering_def fresh_session_def split: option.splits)

text \<open>Line 120: every text message sets \<^verbatim>\<open>last_seen\<close>.\<close>

lemma text_sets_last_seen:
  assumes "message upd = Some m" and "from_user m = Some u"
  shows "map_option last_seen (ctx_out (handle_text_message env upd ctx) (user_id u)) =
           Some (now_touch env)"
  by (simp add: text_session [OF assms] Let_def assemble_fields entering_def split: sum.splits)

text \<open>The example worlds and updates, evaluated.\<close>

lemma respond_calm:
  "respond (calm_env t) chat msgs =
     ([Completions_create ''gpt-4o-mini'' msgs, Reply_text ''...'' None,
       Edit_message_text chat 5 ''he'', Edit_message_text chat 5 ''hello''], Inr ''hello'')"
  by (simp add: respond_def calm_env_def truthy_def Let_def)

lemma respond_failing:
  "respond (failing_env t) chat msgs = ([Completions_create ''gpt-4o-mini'' msgs], Inl ''timeout'')"
  by (simp add: respond_def failing_env_def calm_env_def)

lemma respond_stalling:
  "respond (stalling_env t) chat msgs =
     ([Completions_create ''gpt-4o-mini'' msgs, Reply_text ''...'' None,
       Edit_message_text chat 5 ''he''], Inl ''connection lost'')"
  by (simp add: respond_def stalling_env_def calm_env_def truthy_def Let_def)

lemma text_update_wf:
  "message (text_update t) =
     Some \<lparr>from_user = Some alice, msg_text = t, document = None, photo = []\<rparr>"
  "from_user \<lparr>from_user = Some alice, msg_text = t, document = None, photo = []\<rparr> = Some alice"
  by (simp_all add: text_update_def)

lemma text_update_fields:
  "user_id alice = 1"
  "effective_chat_id (text_update t) = 7"
  "msg_text \<lparr>from_user = Some alice, msg_text = t, document = None, photo = []\<rparr> = t"
  by (simp_all add: text_update_def alice_def)

lemma text_update_session:
  "ctx_out (handle_text_message env (text_update t) ctx) 1 =
     Some (let asm = assemble (entering env (ctx 1)) t
           in case snd (respond env 7 (fst asm)) of
                Inr full \<Rightarrow>
                  (snd asm)\<lparr>history := history (snd asm) @
                     [\<lparr>role = User, content = Plain t\<rparr>,
                      \<lparr>role = Assistant, content = Plain full\<rparr>]\<rparr>
              | Inl e \<Rightarrow> snd asm)"
  using text_session [where upd = "text_update t" and u = alice and env = env and ctx = ctx
                        and m = "\<lparr>from_user = Some alice, msg_text = t, document = None, photo = []\<rparr>"]
  by (simp add: text_update_wf text_update_fields Let_def split: sum.splits)

lemma text_update_submitted:
  "submitted (effects (handle_text_message env (text_update t) ctx)) =
     [fst (assemble (entering env (ctx 1)) t)]"
  using text_submitted [where upd = "text_update t" and u = alice and env = env and ctx = ctx
                          and m = "\<lparr>from_user = Some alice, msg_text = t, document = None, photo = []\<rparr>"]
  by (simp add: text_update_wf text_update_fields Let_def split: sum.splits)

lemma clocks:
  "now_idle (calm_env t) = t" "now_reset (calm_env t) = t" "now_create (calm_env t) = t"
  "now_touch (calm_env t) = t"
  "now_idle (failing_env t) = t" "now_reset (failing_env t) = t" "now_create (failing_env t) = t"
  "now_touch (failing_env t) = t"
  "now_idle (stalling_env t) = t" "now_reset (stalling_env t) = t" "now_create (stalling_env t) = t"
  "now_touch (stalling_env t) = t"
  by (simp_all add: calm_env_def failing_env_def stalling_env_def)

lemma idle_examples:
  "idle_expired 660000000 (Some with_document)" "\<not> idle_expired 60000000 (Some with_document)"
  "idle_expired 660000000 (Some with_image)" "\<not> idle_expired 60000000 (Some with_image)"
  by (simp_all add: idle_expired_def with_document_def with_image_def timedelta_minutes_def
        CONTEXT_TIMEOUT_MINUTES_def)

lemma entering_examples:
  "entering (calm_env 660000000) (Some with_document) = fresh_session 660000000"
  "entering (failing_env 660000000) (Some with_document) = fresh_session 660000000"
  "entering (calm_env 660000000) (Some with_image) = fresh_session 660000000"
  "entering (failing_env 660000000) (Some with_image) = fresh_session 660000000"
  "entering (calm_env 60000000) (Some with_document) = with_document\<lparr>last_seen := 60000000\<rparr>"
  "entering (failing_env 60000000) (Some with_document) = with_document\<lparr>last_seen := 60000000\<rparr>"
  "entering (calm_env 60000000) (Some with_image) = with_image\<lparr>last_seen := 60000000\<rparr>"
  "entering (failing_env 60000000) (Some with_image) = with_image\<lparr>last_seen := 60000000\<rparr>"
  by (simp_all add: entering_def idle_examples clocks fresh_session_def)

lemma assemble_fresh_session:
  "assemble (fresh_session t) p =
     ([system_prompt, \<lparr>role = User, content = Plain p\<rparr>], fresh_session t)"
  by (simp add: assemble_def fresh_session_def truthy_def)

subsection \<open>The idle timeout\<close>



subsection \<open>What a text turn records\<close>

text \<open>
  Claim C2, as the code has it. A text turn starts from the history of the session as
  lines 110 to 120 leave it: the stored history, or the empty one when the sender had no
  session or the idle test fired. If the \<^verbatim>\<open>try\<close> block runs to its end, the history
  afterwards is that history followed by the user entry with the new text and the
  assistant entry with the streamed reply, and no failure notice is issued. If the
  completion request, the placeholder message, the stream or an edit raises, the history
  afterwards is that history, and the handler logs the error and sends the generic notice.
\<close>

theorem text_turn_history:
  assumes "message upd = Some m" and "from_user m = Some u"
    and "respond env (effective_chat_id upd)
           (fst (assemble (entering env (ctx (user_id u))) (msg_text m))) = (effs, res)"
  shows "history (entering env (ctx (user_id u))) =
           (case ctx (user_id u) of
              None \<Rightarrow> []
            | Some s \<Rightarrow> if idle_expired (now_idle env) (Some s) then [] else history s)
       \<and> (case res of
             Inr full \<Rightarrow>
               map_option history (ctx_out (handle_text_message env upd ctx) (user_id u)) =
                 Some (history (entering env (ctx (user_id u))) @
                       [\<lparr>role = User, content = Plain (msg_text m)\<rparr>,
                        \<lparr>role = Assistant, content = Plain full\<rparr>])
               \<and> (\<exists>items. completions_create env
                              (fst (assemble (entering env (ctx (user_id u))) (msg_text m))) =
                              Inr items
                            \<and> full = streamed_text items)
               \<and> effects (handle_text_message env upd ctx) =
                   (if idle_expired (now_idle env) (ctx (user_id u))
                    then [Reply_text ''Our conversation history has been cleared.'' None] else [])
                   @ [Send_chat_action (effective_chat_id upd) TYPING] @ effs
           | Inl e \<Rightarrow>
               map_option history (ctx_out (handle_text_message env upd ctx) (user_id u)) =
                 Some (history (entering env (ctx (user_id u))))
               \<and> effects (handle_text_message env upd ctx) =
                   (if idle_expired (now_idle env) (ctx (user_id u))
                    then [Reply_text ''Our conversation history has been cleared.'' None] else [])
                   @ [Send_chat_action (effective_chat_id upd) TYPING] @ effs
                   @ [Logger_error (''Error generating response: '' @ e),
                      Reply_text
                        ''Sorry, I encountered an error while processing your request. Please try again.''
                        None])"
proof (cases res)
  case (Inl e)
  with assms(3) show ?thesis
    unfolding handle_text_message_wf [OF assms(1,2)]
    by (simp add: Let_def returns_def assemble_fields entering_history notices)
next
  case (Inr full)
  with assms(3) respond_reply [of env "effective_chat_id upd" _ effs full] show ?thesis
    unfolding handle_text_message_wf [OF assms(1,2)]
    by (simp add: Let_def returns_def assemble_fields entering_history notices)
qed

theorem text_turn_history_witness:
  "map_option history
     (ctx_out (handle_text_message (calm_env 60000000) (text_update ''hi'')
                 [1 \<mapsto> with_document]) 1) =
     Some (greeting @ [\<lparr>role = User, content = Plain ''hi''\<rparr>,
                       \<lparr>role = Assistant, content = Plain ''hello''\<rparr>])
   \<and> map_option history
       (ctx_out (handle_text_message (failing_env 60000000) (text_update ''hi'')
                   [1 \<mapsto> with_document]) 1) = Some greeting
   \<and> map_option history
       (ctx_out (handle_text_message (stalling_env 60000000) (text_update ''hi'')
                   [1 \<mapsto> with_document]) 1) = Some greeting
   \<and> effects (handle_text_message (stalling_env 60000000) (text_update ''hi'')
                 [1 \<mapsto> with_document]) =
       [Send_chat_action 7 TYPING,
        Completions_create ''gpt-4o-mini''
          ([system_prompt] @ greeting @
           [\<lparr>role = System,
             content = Plain ''Use the following content from a PDF to answer: contract text''\<rparr>,
            \<lparr>role = User, content = Plain ''hi''\<rparr>]),
        Reply_text ''...'' None,
        Edit_message_text 7 5 ''he'',
        Logger_error ''Error generating response: connection lost'',
        Reply_text ''Sorry, I encountered an error while processing your request. Please try again.''
          None]"
proof -
  let ?ctx = "[1 \<mapsto> with_document]"
  let ?m = "\<lparr>from_user = Some alice, msg_text = ''hi'', document = None, photo = []\<rparr>"
  have h: "history with_document = greeting"
    by (simp add: with_document_def)
  have m: "message (text_update ''hi'') = Some ?m" and u: "from_user ?m = Some alice"
    by (rule text_update_wf)+
  have "respond (calm_env 60000000) (effective_chat_id (text_update ''hi''))
          (fst (assemble (entering (calm_env 60000000) (?ctx (user_id alice))) (msg_text ?m)))
        = ([Completions_create ''gpt-4o-mini''
              (fst (assemble (entering (calm_env 60000000) (?ctx (user_id alice))) (msg_text ?m))),
            Reply_text ''...'' None,
            Edit_message_text (effective_chat_id (text_update ''hi'')) 5 ''he'',
            Edit_message_text (effective_chat_id (text_update ''hi'')) 5 ''hello''], Inr ''hello'')"
    by (rule respond_calm)
  from text_turn_history [where upd = "text_update ''hi''" and m = ?m and u = alice and ctx = ?ctx,
                          OF m u this]
  have a: "map_option history
     (ctx_out (handle_text_message (calm_env 60000000) (text_update ''hi'') ?ctx) 1) =
     Some (greeting @ [\<lparr>role = User, content = Plain ''hi''\<rparr>,
                       \<lparr>role = Assistant, content = Plain ''hello''\<rparr>])"
    by (auto simp: text_update_fields clocks idle_examples h)
  have "respond (failing_env 60000000) (effective_chat_id (text_update ''hi''))
          (fst (assemble (entering (failing_env 60000000) (?ctx (user_id alice))) (msg_text ?m)))
        = ([Completions_create ''gpt-4o-mini''
              (fst (assemble (entering (failing_env 60000000) (?ctx (user_id alice))) (msg_text ?m)))],
           Inl ''timeout'')"
    by (rule respond_failing)
  from text_turn_history [where upd = "text_update ''hi''" and m = ?m and u = alice and ctx = ?ctx,
                          OF m u this]
  have b: "map_option history
       (ctx_out (handle_text_message (failing_env 60000000) (text_update ''hi'') ?ctx) 1) =
       Some greeting"
    by (auto simp: text_update_fields clocks idle_examples h)
  let ?prompt = "fst (assemble (entering (stalling_env 60000000) (?ctx (user_id alice)))
                        (msg_text ?m))"
  have p: "?prompt =
             [system_prompt] @ greeting @
             [\<lparr>role = System,
               content = Plain ''Use the following content from a PDF to answer: contract text''\<rparr>,
              \<lparr>role = User, content = Plain ''hi''\<rparr>]"
  proof -
    have "entering (stalling_env 60000000) (?ctx (user_id alice)) =
            with_document\<lparr>last_seen := 60000000\<rparr>"
      by (simp add: text_update_fields entering_def clocks idle_examples)
    then show ?thesis
      by (simp add: assemble_def truthy_def with_document_def)
  qed
  have "respond (stalling_env 60000000) (effective_chat_id (text_update ''hi'')) ?prompt
        = ([Completions_create ''gpt-4o-mini'' ?prompt,
            Reply_text ''...'' None,
            Edit_message_text (effective_chat_id (text_update ''hi'')) 5 ''he''],
           Inl ''connection lost'')"
    by (rule respond_stalling)
  from text_turn_history [where upd = "text_update ''hi''" and m = ?m and u = alice and ctx = ?ctx,
                          OF m u this]
  have c: "map_option history
       (ctx_out (handle_text_message (stalling_env 60000000) (text_update ''hi'') ?ctx) 1) =
       Some greeting"
    and d: "effects (handle_text_message (stalling_env 60000000) (text_update ''hi'') ?ctx) =
       [Send_chat_action 7 TYPING,
        Completions_create ''gpt-4o-mini'' ?prompt,
        Reply_text ''...'' None,
        Edit_message_text 7 5 ''he'',
        Logger_error ''Error generating response: connection lost'',
        Reply_text ''Sorry, I encountered an error while processing your request. Please try again.''
          None]"
    by (auto simp: text_update_fields clocks idle_examples h)
  from a b c d p show ?thesis by simp
qed

text \<open>
  Claim C2 as stated does not hold for a session that has been idle for more than ten
  minutes: the stored history (here two entries) is dropped before the turn, so a failed
  turn leaves the empty history and a successful one leaves two entries, not four.
\<close>

theorem text_turn_history_counterexample:
  "map_option history ([1 \<mapsto> with_document] 1) = Some greeting
   \<and> greeting \<noteq> []
   \<and> map_option history
       (ctx_out (handle_text_message (failing_env 660000000) (text_update ''hi'')
                   [1 \<mapsto> with_document]) 1) = Some []
   \<and> map_option history
       (ctx_out (handle_text_message (calm_env 660000000) (text_update ''hi'')
                   [1 \<mapsto> with_document]) 1) =
       Some [\<lparr>role = User, content = Plain ''hi''\<rparr>, \<lparr>role = Assistant, content = Plain ''hello''\<rparr>]"
proof -
  have "history with_document = greeting" and "greeting \<noteq> []"
    by (simp_all add: with_document_def greeting_def)
  moreover have "history (fresh_session 660000000) = []"
    by (simp add: fresh_session_def)
  ultimately show ?thesis
    by (simp add: text_update_session entering_examples assemble_fresh_session respond_calm
          respond_failing)
qed

subsection \<open>Facts about prompts and attachments\<close>

lemma images_simps:
  "images [] = []"
  "images (msg # msgs) = content_images (content msg) @ images msgs"
  "images (xs @ ys) = images xs @ images ys"
  by (simp_all add: images_def)

lemma entering_active:
  assumes "now_idle env - last_seen s \<le> 10 * 60 * 1000000"
  shows "entering env (Some s) = s\<lparr>last_seen := now_touch env\<rparr>"
  using assms
  by (simp add: entering_def idle_expired_def timedelta_minutes_def CONTEXT_TIMEOUT_MINUTES_def)

lemma assemble_image:
  assumes "truthy (image_data s) = Some img"
  shows "assemble s p =
           ([system_prompt] @ history s @
            [\<lparr>role = User,
              content = Parts [Text_part p, Image_url (''data:image/jpeg;base64,'' @ img)]\<rparr>],
            s\<lparr>image_data := None\<rparr>)"
  using assms by (simp add: assemble_def)

lemma assemble_document:
  assumes "truthy (image_data s) = None" and "truthy (pdf_text s) = Some txt"
  shows "assemble s p =
           ([system_prompt] @ history s @
            [\<lparr>role = System,
              content = Plain (''Use the following content from a PDF to answer: '' @ take 4000 txt)\<rparr>,
             \<lparr>role = User, content = Plain p\<rparr>],
            s)"
  using assms by (simp add: assemble_def)

lemma assemble_plain:
  assumes "truthy (image_data s) = None" and "truthy (pdf_text s) = None"
  shows "assemble s p = ([system_prompt] @ history s @ [\<lparr>role = User, content = Plain p\<rparr>], s)"
  using assms by (simp add: assemble_def)

lemma assemble_no_image:
  assumes "truthy (image_data s) = None"
  shows "images (fst (assemble s p)) = images (history s)"
    and "last (fst (assemble s p)) = \<lparr>role = User, content = Plain p\<rparr>"
  using assms
  by (simp_all add: assemble_def Let_def images_simps system_prompt_def split: option.splits)

lemma truthy_None [simp]: "truthy None = None"
  by (simp add: truthy_def)

lemma entering_truthy_image:
  assumes "\<And>s. so = Some s \<Longrightarrow> truthy (image_data s) = None"
  shows "truthy (image_data (entering env so)) = None"
  using assms by (simp add: entering_def fresh_session_def split: option.splits)

text \<open>The prompt of a text turn for a sender whose session holds no image to use.\<close>

lemma prompt_without_image:
  assumes "message upd = Some m" and "from_user m = Some u"
    and "ctx (user_id u) = Some s" and "truthy (image_data s) = None"
  shows "\<exists>prompt. submitted (effects (handle_text_message env upd ctx)) = [prompt]
           \<and> last prompt = \<lparr>role = User, content = Plain (msg_text m)\<rparr>
           \<and> images prompt =
               (if idle_expired (now_idle env) (Some s) then [] else images (history s))"
proof -
  let ?e = "entering env (ctx (user_id u))"
  have t: "truthy (image_data ?e) = None"
    using assms(3,4) by (intro entering_truthy_image) simp
  have "images (history ?e) =
          (if idle_expired (now_idle env) (Some s) then [] else images (history s))"
    using assms(3) by (simp add: entering_history images_simps)
  with assemble_no_image [OF t] text_submitted [OF assms(1,2)] show ?thesis
    by simp
qed

text \<open>The session a text turn leaves when the idle test does not fire.\<close>

lemma active_turn_session:
  assumes "message upd = Some m" and "from_user m = Some u"
    and "ctx (user_id u) = Some s" and "now_idle env - last_seen s \<le> 10 * 60 * 1000000"
  shows "\<exists>s'. ctx_out (handle_text_message env upd ctx) (user_id u) = Some s'
           \<and> last_seen s' = now_touch env
           \<and> pdf_text s' = pdf_text s
           \<and> image_data s' = (if truthy (image_data s) = None then image_data s else None)
           \<and> images (history s') = images (history s)
           \<and> (case snd (respond env (effective_chat_id upd)
                          (fst (assemble (s\<lparr>last_seen := now_touch env\<rparr>) (msg_text m)))) of
                 Inl e \<Rightarrow> history s' = history s
               | Inr full \<Rightarrow>
                   history s' = history s @ [\<lparr>role = User, content = Plain (msg_text m)\<rparr>,
                                             \<lparr>role = Assistant, content = Plain full\<rparr>])"
  using assms(3) entering_active [OF assms(4)]
  by (simp add: text_session [OF assms(1,2)] Let_def assemble_fields images_simps
           split: sum.splits)

text \<open>The histories the bot builds hold text only: no session reachable from the empty
  dictionary has an image in its history.\<close>

lemma text_plain_history:
  assumes "\<And>uid s. ctx uid = Some s \<Longrightarrow> images (history s) = []"
    and "ctx_out (handle_text_message env upd ctx) uid = Some s'"
  shows "images (history s') = []"
proof (cases "message upd")
  case None
  with assms show ?thesis by (simp add: handle_text_message_def raises_def)
next
  case (Some m)
  show ?thesis
  proof (cases "from_user m")
    case None
    with Some assms show ?thesis by (simp add: handle_text_message_def raises_def)
  next
    case (Some u)
    let ?asm = "assemble (entering env (ctx (user_id u))) (msg_text m)"
    have "images (history (entering env (ctx (user_id u)))) = []"
      using assms(1) [of "user_id u"]
      by (auto simp: entering_history images_simps split: option.splits)
    then have h: "images (history (snd ?asm)) = []"
      by (simp add: assemble_fields)
    from assms(2) show ?thesis
      unfolding handle_text_message_wf [OF \<open>message upd = Some m\<close> Some]
      using h assms(1)
      by (auto simp: Let_def returns_def images_simps split: sum.splits if_splits)
  qed
qed

lemma dispatch_plain_history:
  assumes "\<And>uid s. ctx uid = Some s \<Longrightarrow> images (history s) = []"
    and "ctx_out (dispatch ev ctx) uid = Some s'"
  shows "images (history s') = []"
proof (cases ev)
  case (Text_message env upd)
  with assms text_plain_history [of ctx env upd uid s'] show ?thesis by simp
next
  case (Start now upd)
  with assms show ?thesis
    by (auto simp: start_command_def returns_def raises_def fresh_session_def images_simps
             split: option.splits if_splits)
next
  case (Help upd)
  with assms show ?thesis
    by (auto simp: help_command_def returns_def raises_def split: option.splits)
next
  case (Reset now upd)
  with assms show ?thesis
    by (auto simp: reset_command_def returns_def raises_def fresh_session_def images_simps
             split: option.splits if_splits)
next
  case (Document_message env upd)
  with assms show ?thesis
    by (auto simp: handle_document_message_def Let_def returns_def raises_def fresh_session_def
                   images_simps
             split: option.splits if_splits sum.splits)
next
  case (Photo_message env upd)
  with assms show ?thesis
    by (auto simp: handle_photo_message_def Let_def returns_def raises_def fresh_session_def
                   images_simps
             split: option.splits if_splits sum.splits list.splits)
qed

lemma run_plain_history:
  assumes "\<And>uid s. ctx uid = Some s \<Longrightarrow> images (history s) = []"
    and "run evs ctx uid = Some s'"
  shows "images (history s') = []"
  using assms
proof (induction evs arbitrary: ctx)
  case Nil
  then show ?case by simp
next
  case (Cons ev evs)
  show ?case
  proof (rule Cons.IH)
    show "images (history s) = []" if "ctx_out (dispatch ev ctx) v = Some s" for v s
      using dispatch_plain_history [of ctx ev v s] Cons.prems(1) that by blast
    show "run evs (ctx_out (dispatch ev ctx)) uid = Some s'"
      using Cons.prems(2) by simp
  qed
qed

text \<open>The payload stored for a photo is empty only for an empty file.\<close>

lemma b64encode_empty_iff: "b64encode bs = [] \<longleftrightarrow> bs = []"
  by (cases bs rule: b64encode.cases) (simp_all add: Let_def)

lemma length_abc_document: "length abc_document = 6000"
  by (simp add: abc_document_def length_concat sum_list_replicate)

lemma example_fields:
  "history with_document = greeting" "last_seen with_document = 0"
  "pdf_text with_document = Some ''contract text''" "image_data with_document = None"
  "history with_image = greeting" "last_seen with_image = 0"
  "pdf_text with_image = None" "image_data with_image = Some ''TWFu''"
  "history with_abc_document = greeting" "last_seen with_abc_document = 0"
  "pdf_text with_abc_document = Some abc_document" "image_data with_abc_document = None"
  "images greeting = []"
  by (simp_all add: with_document_def with_image_def with_abc_document_def greeting_def
        images_simps)

lemma truthy_examples:
  "truthy (Some ''TWFu'') = Some ''TWFu''" "truthy (Some abc_document) = Some abc_document"
  "truthy (Some ''contract text'') = Some ''contract text''"
  using length_abc_document by (auto simp: truthy_def)

lemma document_at_eleven_minutes:
  "handle_document_message (calm_env 660000000) (document_update ''application/pdf'' 2048)
     [1 \<mapsto> with_image] =
     returns [1 \<mapsto> with_image\<lparr>pdf_text := Some ''page one. page two.'', image_data := None\<rparr>]
       [Download ''doc-1'',
        Reply_text
          ''Thank you for the PDF. I'm processing it now. Please ask me a question about its content.''
          None]"
  by (simp add: handle_document_message_def document_update_def calm_env_def alice_def Let_def
        MAX_PDF_SIZE_def get_translation_def map_of_translations_dict en_strings_def)

lemma photo_at_eleven_minutes:
  "handle_photo_message (calm_env 660000000) (photo_update 2048) [1 \<mapsto> with_document] =
     returns [1 \<mapsto> with_document\<lparr>image_data := Some ''TWFu'', pdf_text := None\<rparr>]
       [Download ''full'',
        Reply_text ''I've received your image. What would you like to know about it?'' None]"
  by (simp add: handle_photo_message_def photo_update_def calm_env_def alice_def Let_def
        MAX_IMAGE_SIZE_def b64_char_def b64_alphabet_def get_translation_def
        map_of_translations_dict en_strings_def)

lemma first_question:
  "ctx_out (handle_text_message (calm_env 60000000) (text_update ''first?'')
              [1 \<mapsto> with_abc_document]) 1 =
     Some (with_abc_document
             \<lparr>last_seen := 60000000,
              history := greeting @ [\<lparr>role = User, content = Plain ''first?''\<rparr>,
                                     \<lparr>role = Assistant, content = Plain ''hello''\<rparr>]\<rparr>)"
proof -
  have "entering (calm_env 60000000) (Some with_abc_document) =
          with_abc_document\<lparr>last_seen := 60000000\<rparr>"
    by (simp add: entering_def idle_expired_def clocks example_fields timedelta_minutes_def
          CONTEXT_TIMEOUT_MINUTES_def)
  then show ?thesis
    by (simp add: text_update_session assemble_document [of _ abc_document]
          example_fields truthy_examples respond_calm)
qed

subsection \<open>The last-activity timestamp\<close>

text \<open>
  Claim C1. The text handler sets \<^verbatim>\<open>last_seen\<close> on every message (line 120). The document
  and photo handlers do not: a session last seen at time 0 that receives an accepted PDF,
  or an accepted photo, eleven minutes later still has \<^verbatim>\<open>last_seen\<close> 0, while a text
  message handled at that time sets it to the time of handling. The next text message
  therefore finds the session idle, resets it and builds its prompt without the PDF text
  that was stored and acknowledged a microsecond before.
\<close>

theorem attachment_handlers_keep_last_seen:
  "map_option last_seen ([1 \<mapsto> with_image] 1) = Some 0
   \<and> map_option last_seen
       (ctx_out (handle_document_message (calm_env 660000000)
                   (document_update ''application/pdf'' 2048) [1 \<mapsto> with_image]) 1) = Some 0
   \<and> map_option last_seen
       (ctx_out (handle_photo_message (calm_env 660000000) (photo_update 2048)
                   [1 \<mapsto> with_document]) 1) = Some 0
   \<and> map_option last_seen
       (ctx_out (handle_text_message (calm_env 660000000) (text_update ''hi'')
                   [1 \<mapsto> with_document]) 1) = Some 660000000
   \<and> map_option pdf_text
       (ctx_out (handle_document_message (calm_env 660000000)
                   (document_update ''application/pdf'' 2048) [1 \<mapsto> with_image]) 1) =
       Some (Some ''page one. page two.'')
   \<and> submitted
       (effects (handle_text_message (calm_env 660000001) (text_update ''summarise'')
          (ctx_out (handle_document_message (calm_env 660000000)
                      (document_update ''application/pdf'' 2048) [1 \<mapsto> with_image])))) =
       [[system_prompt, \<lparr>role = User, content = Plain ''summarise''\<rparr>]]"
proof -
  have "entering (calm_env 660000001)
          (Some (with_image\<lparr>pdf_text := Some ''page one. page two.'', image_data := None\<rparr>)) =
        fresh_session 660000001"
    by (simp add: entering_def idle_expired_def clocks example_fields timedelta_minutes_def
          CONTEXT_TIMEOUT_MINUTES_def fresh_session_def)
  moreover have "last_seen (fresh_session 660000000) = 660000000"
    by (simp add: fresh_session_def)
  ultimately show ?thesis
    by (simp add: document_at_eleven_minutes photo_at_eleven_minutes returns_def
          text_update_session text_update_submitted entering_examples assemble_fresh_session
          respond_calm example_fields)
qed

subsection \<open>Document context\<close>

text \<open>
  Claim C7. Let a session hold an extracted text of more than 4000 characters and no image
  to use, and let two text messages of its user be handled, neither of them after an idle
  period of more than ten minutes. The prompt of the first is the system instruction, the
  history, a system message that embeds the first 4000 characters of the text and nothing
  after them, and the new text. The session keeps the whole text, so the prompt of the
  second has the same system message, after the history the first turn left. The session
  after a turn satisfies what the theorem asks of the session before it, so the same holds
  for every later turn until the text is replaced or the session is reset.
\<close>

theorem document_context_persists:
  assumes "message upd = Some m" and "from_user m = Some u"
    and "message upd' = Some m'" and "from_user m' = Some u'" and "user_id u' = user_id u"
    and "ctx (user_id u) = Some s"
    and "pdf_text s = Some txt" and "length txt > 4000"
    and "truthy (image_data s) = None"
    and "now_idle env - last_seen s \<le> 10 * 60 * 1000000"
    and "now_idle env' - now_touch env \<le> 10 * 60 * 1000000"
  shows "length (take 4000 txt) = 4000
       \<and> submitted (effects (handle_text_message env upd ctx)) =
           [[system_prompt] @ history s @
            [\<lparr>role = System,
              content = Plain (''Use the following content from a PDF to answer: '' @
                               take 4000 txt)\<rparr>,
             \<lparr>role = User, content = Plain (msg_text m)\<rparr>]]
       \<and> (\<exists>s1. ctx_out (handle_text_message env upd ctx) (user_id u) = Some s1
              \<and> pdf_text s1 = Some txt
              \<and> truthy (image_data s1) = None
              \<and> last_seen s1 = now_touch env
              \<and> submitted (effects (handle_text_message env' upd'
                                        (ctx_out (handle_text_message env upd ctx)))) =
                  [[system_prompt] @ history s1 @
                   [\<lparr>role = System,
                     content = Plain (''Use the following content from a PDF to answer: '' @
                                      take 4000 txt)\<rparr>,
                    \<lparr>role = User, content = Plain (msg_text m')\<rparr>]]
              \<and> map_option pdf_text
                  (ctx_out (handle_text_message env' upd'
                              (ctx_out (handle_text_message env upd ctx))) (user_id u)) =
                  Some (Some txt))"
proof -
  have t: "truthy (Some txt) = Some txt"
    using assms(8) by (auto simp: truthy_def)
  have 1: "submitted (effects (handle_text_message env upd ctx)) =
           [[system_prompt] @ history s @
            [\<lparr>role = System,
              content = Plain (''Use the following content from a PDF to answer: '' @
                               take 4000 txt)\<rparr>,
             \<lparr>role = User, content = Plain (msg_text m)\<rparr>]]"
    using assms(6,7,9) t
    by (simp add: text_submitted [OF assms(1,2)] entering_active [OF assms(10)] assemble_document)
  from active_turn_session [where ctx = ctx and u = u and s = s, OF assms(1,2,6,10)]
  obtain s1 where s1: "ctx_out (handle_text_message env upd ctx) (user_id u) = Some s1"
    "last_seen s1 = now_touch env" "pdf_text s1 = pdf_text s"
    "image_data s1 = (if truthy (image_data s) = None then image_data s else None)"
    by blast
  let ?ctx1 = "ctx_out (handle_text_message env upd ctx)"
  have c1: "?ctx1 (user_id u') = Some s1"
    using s1(1) assms(5) by simp
  have i1: "truthy (image_data s1) = None"
    using s1(4) assms(9) by simp
  have a2: "now_idle env' - last_seen s1 \<le> 10 * 60 * 1000000"
    using assms(11) s1(2) by simp
  have 2: "submitted (effects (handle_text_message env' upd' ?ctx1)) =
             [[system_prompt] @ history s1 @
              [\<lparr>role = System,
                content = Plain (''Use the following content from a PDF to answer: '' @
                                 take 4000 txt)\<rparr>,
               \<lparr>role = User, content = Plain (msg_text m')\<rparr>]]"
    using c1 i1 s1(3) assms(7) t
    by (simp add: text_submitted [OF assms(3,4)] entering_active [OF a2] assemble_document)
  from active_turn_session [where ctx = ?ctx1 and u = u' and s = s1, OF assms(3,4) c1 a2]
  have 3: "map_option pdf_text (ctx_out (handle_text_message env' upd' ?ctx1) (user_id u)) =
             Some (Some txt)"
    using s1(3) assms(5,7) by auto
  from 1 2 3 s1 i1 assms(7,8) show ?thesis
    by simp
qed

theorem document_context_persists_witness:
  "pdf_text with_abc_document = Some abc_document
   \<and> length abc_document > 4000
   \<and> length (take 4000 abc_document) = 4000
   \<and> submitted (effects (handle_text_message (calm_env 60000000) (text_update ''first?'')
                            [1 \<mapsto> with_abc_document])) =
       [[system_prompt] @ greeting @
        [\<lparr>role = System,
          content = Plain (''Use the following content from a PDF to answer: '' @
                           take 4000 abc_document)\<rparr>,
         \<lparr>role = User, content = Plain ''first?''\<rparr>]]
   \<and> submitted (effects (handle_text_message (calm_env 120000000) (text_update ''second?'')
         (ctx_out (handle_text_message (calm_env 60000000) (text_update ''first?'')
                     [1 \<mapsto> with_abc_document])))) =
       [[system_prompt] @
        (greeting @ [\<lparr>role = User, content = Plain ''first?''\<rparr>,
                     \<lparr>role = Assistant, content = Plain ''hello''\<rparr>]) @
        [\<lparr>role = System,
          content = Plain (''Use the following content from a PDF to answer: '' @
                           take 4000 abc_document)\<rparr>,
         \<lparr>role = User, content = Plain ''second?''\<rparr>]]"
proof -
  let ?ctx = "[1 \<mapsto> with_abc_document]"
  let ?m = "\<lparr>from_user = Some alice, msg_text = ''first?'', document = None, photo = []\<rparr>"
  let ?m2 = "\<lparr>from_user = Some alice, msg_text = ''second?'', document = None, photo = []\<rparr>"
  have m: "message (text_update ''first?'') = Some ?m" and u: "from_user ?m = Some alice"
    and m2: "message (text_update ''second?'') = Some ?m2" and u2: "from_user ?m2 = Some alice"
    by (rule text_update_wf)+
  have c: "?ctx (user_id alice) = Some with_abc_document"
    by (simp add: text_update_fields)
  have p: "pdf_text with_abc_document = Some abc_document"
    and i: "truthy (image_data with_abc_document) = None"
    by (simp_all add: example_fields)
  have l: "length abc_document > 4000"
    by (simp add: length_abc_document)
  have a: "now_idle (calm_env 60000000) - last_seen with_abc_document \<le> 10 * 60 * 1000000"
    by (simp add: clocks example_fields)
  have a2: "now_idle (calm_env 120000000) - now_touch (calm_env 60000000) \<le> 10 * 60 * 1000000"
    by (simp add: clocks)
  from document_context_persists [where ctx = ?ctx and u = alice and s = with_abc_document
         and env = "calm_env 60000000" and env' = "calm_env 120000000"
         and upd = "text_update ''first?''" and upd' = "text_update ''second?''",
         OF m u m2 u2 refl c p l i a a2]
  show ?thesis
    using p l by (auto simp: text_update_fields example_fields first_question)
qed

subsection \<open>Image context\<close>

text \<open>
  Claim C8, as the code has it. Let a session hold a non-empty image payload, and let a
  text message of its user be handled no more than ten minutes after \<^verbatim>\<open>last_seen\<close>. The
  prompt is the system instruction, the history and one user message with the new text and
  the image as a data URL: the image once, and no PDF message, whatever \<^verbatim>\<open>pdf_text\<close>
  holds. Afterwards \<^verbatim>\<open>image_data\<close> is \<^verbatim>\<open>None\<close>, and the prompt of the following text
  message ends with a plain user message and carries no image but those of the history.
\<close>

theorem pending_image_used_once:
  assumes "message upd = Some m" and "from_user m = Some u"
    and "message upd' = Some m'" and "from_user m' = Some u'" and "user_id u' = user_id u"
    and "ctx (user_id u) = Some s"
    and "truthy (image_data s) = Some img"
    and "now_idle env - last_seen s \<le> 10 * 60 * 1000000"
  shows "submitted (effects (handle_text_message env upd ctx)) =
           [[system_prompt] @ history s @
            [\<lparr>role = User,
              content = Parts [Text_part (msg_text m),
                               Image_url (''data:image/jpeg;base64,'' @ img)]\<rparr>]]
       \<and> images ([system_prompt] @ history s @
                 [\<lparr>role = User,
                   content = Parts [Text_part (msg_text m),
                                    Image_url (''data:image/jpeg;base64,'' @ img)]\<rparr>]) =
           images (history s) @ [''data:image/jpeg;base64,'' @ img]
       \<and> (\<exists>s1. ctx_out (handle_text_message env upd ctx) (user_id u) = Some s1
              \<and> image_data s1 = None \<and> pdf_text s1 = pdf_text s
              \<and> images (history s1) = images (history s)
              \<and> (\<exists>prompt'.
                    submitted (effects (handle_text_message env' upd'
                                          (ctx_out (handle_text_message env upd ctx)))) =
                      [prompt']
                    \<and> last prompt' = \<lparr>role = User, content = Plain (msg_text m')\<rparr>
                    \<and> images prompt' =
                        (if idle_expired (now_idle env') (Some s1) then []
                         else images (history s))))"
proof -
  have 1: "submitted (effects (handle_text_message env upd ctx)) =
           [[system_prompt] @ history s @
            [\<lparr>role = User,
              content = Parts [Text_part (msg_text m),
                               Image_url (''data:image/jpeg;base64,'' @ img)]\<rparr>]]"
    using assms(6,7)
    by (simp add: text_submitted [OF assms(1,2)] entering_active [OF assms(8)] assemble_image)
  have 2: "images ([system_prompt] @ history s @
                 [\<lparr>role = User,
                   content = Parts [Text_part (msg_text m),
                                    Image_url (''data:image/jpeg;base64,'' @ img)]\<rparr>]) =
           images (history s) @ [''data:image/jpeg;base64,'' @ img]"
    by (simp add: images_simps system_prompt_def)
  from active_turn_session [where ctx = ctx and u = u and s = s, OF assms(1,2,6,8)]
  obtain s1 where s1: "ctx_out (handle_text_message env upd ctx) (user_id u) = Some s1"
    "pdf_text s1 = pdf_text s"
    "image_data s1 = (if truthy (image_data s) = None then image_data s else None)"
    "images (history s1) = images (history s)"
    by blast
  let ?ctx1 = "ctx_out (handle_text_message env upd ctx)"
  have i1: "image_data s1 = None"
    using s1(3) assms(7) by simp
  have c1: "?ctx1 (user_id u') = Some s1"
    using s1(1) assms(5) by simp
  have "truthy (image_data s1) = None"
    using i1 by simp
  from prompt_without_image [where ctx = ?ctx1 and u = u' and s = s1 and env = env',
                              OF assms(3,4) c1 this]
  have "\<exists>prompt'.
          submitted (effects (handle_text_message env' upd' ?ctx1)) = [prompt']
          \<and> last prompt' = \<lparr>role = User, content = Plain (msg_text m')\<rparr>
          \<and> images prompt' =
              (if idle_expired (now_idle env') (Some s1) then [] else images (history s))"
    using s1(4) by auto
  with 1 2 s1 i1 show ?thesis
    by blast
qed

theorem pending_image_used_once_witness:
  "truthy (image_data with_image) = Some ''TWFu''
   \<and> now_idle (calm_env 60000000) - last_seen with_image \<le> 10 * 60 * 1000000
   \<and> submitted (effects (handle_text_message (calm_env 60000000) (text_update ''what is this?'')
                            [1 \<mapsto> with_image])) =
       [[system_prompt] @ greeting @
        [\<lparr>role = User,
          content = Parts [Text_part ''what is this?'',
                           Image_url ''data:image/jpeg;base64,TWFu'']\<rparr>]]
   \<and> map_option image_data
       (ctx_out (handle_text_message (calm_env 60000000) (text_update ''what is this?'')
                   [1 \<mapsto> with_image]) 1) = Some None
   \<and> map images
       (submitted (effects (handle_text_message (calm_env 120000000) (text_update ''and now?'')
          (ctx_out (handle_text_message (calm_env 60000000) (text_update ''what is this?'')
                      [1 \<mapsto> with_image]))))) = [[]]"
proof -
  let ?ctx = "[1 \<mapsto> with_image]"
  let ?m = "\<lparr>from_user = Some alice, msg_text = ''what is this?'', document = None, photo = []\<rparr>"
  let ?m2 = "\<lparr>from_user = Some alice, msg_text = ''and now?'', document = None, photo = []\<rparr>"
  have m: "message (text_update ''what is this?'') = Some ?m" and u: "from_user ?m = Some alice"
    and m2: "message (text_update ''and now?'') = Some ?m2" and u2: "from_user ?m2 = Some alice"
    by (rule text_update_wf)+
  have c: "?ctx (user_id alice) = Some with_image"
    by (simp add: text_update_fields)
  have i: "truthy (image_data with_image) = Some ''TWFu''"
    by (simp add: example_fields truthy_examples)
  have a: "now_idle (calm_env 60000000) - last_seen with_image \<le> 10 * 60 * 1000000"
    by (simp add: clocks example_fields)
  from pending_image_used_once [where ctx = ?ctx and u = alice and s = with_image
         and env = "calm_env 60000000" and env' = "calm_env 120000000"
         and upd = "text_update ''what is this?''" and upd' = "text_update ''and now?''",
         OF m u m2 u2 refl c i a]
  show ?thesis
    using i a by (auto simp: text_update_fields example_fields)
qed

text \<open>
  Claim C8 as stated does not hold when the text message is handled more than ten minutes
  after \<^verbatim>\<open>last_seen\<close>: the idle reset discards the pending image before the prompt is
  built, and the prompt carries no image.
\<close>

theorem pending_image_used_once_counterexample:
  "truthy (image_data with_image) = Some ''TWFu''
   \<and> submitted (effects (handle_text_message (calm_env 660000000) (text_update ''what is this?'')
                            [1 \<mapsto> with_image])) =
       [[system_prompt, \<lparr>role = User, content = Plain ''what is this?''\<rparr>]]
   \<and> images [system_prompt, \<lparr>role = User, content = Plain ''what is this?''\<rparr>] = []"
  by (simp add: text_update_submitted entering_examples assemble_fresh_session example_fields
        truthy_examples images_simps system_prompt_def)

subsection \<open>Attachments and failed turns\<close>

text \<open>The session a failed text turn leaves, idle or not.\<close>

lemma failed_turn_session:
  assumes "message upd = Some m" and "from_user m = Some u"
    and "respond env (effective_chat_id upd)
           (fst (assemble (entering env (ctx (user_id u))) (msg_text m))) = (effs, Inl e)"
  shows "\<exists>s'. ctx_out (handle_text_message env upd ctx) (user_id u) = Some s'
           \<and> history s' = history (entering env (ctx (user_id u)))
           \<and> pdf_text s' = pdf_text (entering env (ctx (user_id u)))
           \<and> image_data s' =
               (if truthy (image_data (entering env (ctx (user_id u)))) = None
                then image_data (entering env (ctx (user_id u))) else None)"
  using assms(3)
  by (simp add: text_session [OF assms(1,2)] Let_def assemble_fields)

lemma entering_reset:
  assumes "now_idle env - last_seen s > 10 * 60 * 1000000"
  shows "history (entering env (Some s)) = []" "pdf_text (entering env (Some s)) = None"
    "image_data (entering env (Some s)) = None"
  using assms
  by (simp_all add: entering_def idle_expired_def timedelta_minutes_def
        CONTEXT_TIMEOUT_MINUTES_def fresh_session_def)

text \<open>
  Claim C9, as the code has it. Let the \<^verbatim>\<open>try\<close> block of a text turn raise. Whether or
  not the idle reset fired, the session holds no usable image afterwards: a non-empty
  payload it held before the turn is \<^verbatim>\<open>None\<close>, and the prompt of the following text
  message ends with a plain user message and carries no image but those of the history.
  If the message was handled no more than ten minutes after \<^verbatim>\<open>last_seen\<close>, the history
  and the PDF text are what they were, and the payload was put into the prompt that was
  submitted, because line 136 runs before the \<^verbatim>\<open>try\<close> block. If it was handled later,
  the reset has emptied the history and dropped the PDF text.
\<close>

theorem failed_turn_attachments:
  assumes "message upd = Some m" and "from_user m = Some u"
    and "message upd' = Some m'" and "from_user m' = Some u'" and "user_id u' = user_id u"
    and "ctx (user_id u) = Some s"
    and "respond env (effective_chat_id upd)
           (fst (assemble (entering env (ctx (user_id u))) (msg_text m))) = (effs, Inl e)"
  shows "\<exists>s1. ctx_out (handle_text_message env upd ctx) (user_id u) = Some s1
           \<and> truthy (image_data s1) = None
           \<and> (\<forall>img. truthy (image_data s) = Some img \<longrightarrow> image_data s1 = None)
           \<and> (\<exists>prompt'.
                 submitted (effects (handle_text_message env' upd'
                                       (ctx_out (handle_text_message env upd ctx)))) = [prompt']
                 \<and> last prompt' = \<lparr>role = User, content = Plain (msg_text m')\<rparr>
                 \<and> images prompt' =
                     (if idle_expired (now_idle env') (Some s1) then []
                      else images (history s1)))
           \<and> (now_idle env - last_seen s \<le> 10 * 60 * 1000000 \<longrightarrow>
                 history s1 = history s
                 \<and> pdf_text s1 = pdf_text s
                 \<and> (\<forall>img. truthy (image_data s) = Some img \<longrightarrow>
                       submitted (effects (handle_text_message env upd ctx)) =
                         [[system_prompt] @ history s @
                          [\<lparr>role = User,
                            content = Parts [Text_part (msg_text m),
                                             Image_url (''data:image/jpeg;base64,'' @ img)]\<rparr>]]))
           \<and> (now_idle env - last_seen s > 10 * 60 * 1000000 \<longrightarrow>
                 history s1 = [] \<and> pdf_text s1 = None)"
proof -
  let ?e = "entering env (ctx (user_id u))"
  from failed_turn_session [where ctx = ctx and u = u, OF assms(1,2,7)]
  obtain s1 where s1: "ctx_out (handle_text_message env upd ctx) (user_id u) = Some s1"
    "history s1 = history ?e" "pdf_text s1 = pdf_text ?e"
    "image_data s1 = (if truthy (image_data ?e) = None then image_data ?e else None)"
    by blast
  let ?ctx1 = "ctx_out (handle_text_message env upd ctx)"
  have t1: "truthy (image_data s1) = None"
    using s1(4) by simp
  have lost: "image_data s1 = None" if "truthy (image_data s) = Some img" for img
  proof (cases "now_idle env - last_seen s \<le> 10 * 60 * 1000000")
    case True
    with that s1(4) assms(6) show ?thesis
      by (simp add: entering_active)
  next
    case False
    with s1(4) assms(6) show ?thesis
      by (simp add: entering_reset)
  qed
  have c1: "?ctx1 (user_id u') = Some s1"
    using s1(1) assms(5) by simp
  from prompt_without_image [where ctx = ?ctx1 and u = u' and s = s1 and env = env',
                              OF assms(3,4) c1 t1]
  have next_prompt: "\<exists>prompt'.
          submitted (effects (handle_text_message env' upd' ?ctx1)) = [prompt']
          \<and> last prompt' = \<lparr>role = User, content = Plain (msg_text m')\<rparr>
          \<and> images prompt' =
              (if idle_expired (now_idle env') (Some s1) then [] else images (history s1))" .
  have active: "history s1 = history s \<and> pdf_text s1 = pdf_text s
        \<and> (\<forall>img. truthy (image_data s) = Some img \<longrightarrow>
              submitted (effects (handle_text_message env upd ctx)) =
                [[system_prompt] @ history s @
                 [\<lparr>role = User,
                   content = Parts [Text_part (msg_text m),
                                    Image_url (''data:image/jpeg;base64,'' @ img)]\<rparr>]])"
    if a: "now_idle env - last_seen s \<le> 10 * 60 * 1000000"
    using s1(2,3) assms(6)
    by (simp add: text_submitted [OF assms(1,2)] entering_active [OF a] assemble_image)
  have idle: "history s1 = [] \<and> pdf_text s1 = None"
    if "now_idle env - last_seen s > 10 * 60 * 1000000"
    using s1(2,3) assms(6) entering_reset [OF that] by simp
  from s1(1) t1 lost next_prompt active idle show ?thesis
    by blast
qed

theorem failed_turn_attachments_witness:
  "truthy (image_data with_image) = Some ''TWFu''
   \<and> map_option history
       (ctx_out (handle_text_message (failing_env 60000000) (text_update ''what is this?'')
                   [1 \<mapsto> with_image]) 1) = Some greeting
   \<and> map_option image_data
       (ctx_out (handle_text_message (failing_env 60000000) (text_update ''what is this?'')
                   [1 \<mapsto> with_image]) 1) = Some None
   \<and> map images
       (submitted (effects (handle_text_message (calm_env 120000000) (text_update ''and now?'')
          (ctx_out (handle_text_message (failing_env 60000000) (text_update ''what is this?'')
                      [1 \<mapsto> with_image]))))) = [[]]
   \<and> map_option history
       (ctx_out (handle_text_message (failing_env 60000000) (text_update ''what is this?'')
                   [1 \<mapsto> with_document]) 1) = Some greeting
   \<and> map_option pdf_text
       (ctx_out (handle_text_message (failing_env 60000000) (text_update ''what is this?'')
                   [1 \<mapsto> with_document]) 1) = Some (Some ''contract text'')
   \<and> now_idle (failing_env 660000000) - last_seen with_image > 10 * 60 * 1000000
   \<and> map_option image_data
       (ctx_out (handle_text_message (failing_env 660000000) (text_update ''what is this?'')
                   [1 \<mapsto> with_image]) 1) = Some None
   \<and> map images
       (submitted (effects (handle_text_message (calm_env 660000001) (text_update ''and now?'')
          (ctx_out (handle_text_message (failing_env 660000000) (text_update ''what is this?'')
                      [1 \<mapsto> with_image]))))) = [[]]"
proof -
  let ?m = "\<lparr>from_user = Some alice, msg_text = ''what is this?'', document = None, photo = []\<rparr>"
  let ?m' = "\<lparr>from_user = Some alice, msg_text = ''and now?'', document = None, photo = []\<rparr>"
  have m: "message (text_update ''what is this?'') = Some ?m" and u: "from_user ?m = Some alice"
    and m': "message (text_update ''and now?'') = Some ?m'" and u': "from_user ?m' = Some alice"
    by (rule text_update_wf)+
  have ci: "[1 \<mapsto> with_image] (user_id alice) = Some with_image"
    and cd: "[1 \<mapsto> with_document] (user_id alice) = Some with_document"
    by (simp_all add: text_update_fields)
  have i: "truthy (image_data with_image) = Some ''TWFu''"
    by (simp add: example_fields truthy_examples)
  have late: "now_idle (failing_env 660000000) - last_seen with_image > 10 * 60 * 1000000"
    by (simp add: clocks example_fields)
  have r: "respond (failing_env t) (effective_chat_id (text_update ''what is this?''))
             (fst (assemble (entering (failing_env t) (ctx (user_id alice))) (msg_text ?m))) =
           ([Completions_create ''gpt-4o-mini''
               (fst (assemble (entering (failing_env t) (ctx (user_id alice))) (msg_text ?m)))],
            Inl ''timeout'')" for t ctx
    by (rule respond_failing)
  from failed_turn_attachments [where ctx = "[1 \<mapsto> with_image]" and u = alice and s = with_image
         and env = "failing_env 60000000" and env' = "calm_env 120000000"
         and upd = "text_update ''what is this?''" and upd' = "text_update ''and now?''"
         and m = ?m and m' = ?m' and u' = alice,
         OF m u m' u' refl ci r [where t = 60000000 and ctx = "[1 \<mapsto> with_image]"]]
  have 1: "map_option history
       (ctx_out (handle_text_message (failing_env 60000000) (text_update ''what is this?'')
                   [1 \<mapsto> with_image]) 1) = Some greeting
   \<and> map_option image_data
       (ctx_out (handle_text_message (failing_env 60000000) (text_update ''what is this?'')
                   [1 \<mapsto> with_image]) 1) = Some None
   \<and> map images
       (submitted (effects (handle_text_message (calm_env 120000000) (text_update ''and now?'')
          (ctx_out (handle_text_message (failing_env 60000000) (text_update ''what is this?'')
                      [1 \<mapsto> with_image]))))) = [[]]"
    using i by (auto simp: text_update_fields example_fields clocks)
  from failed_turn_attachments [where ctx = "[1 \<mapsto> with_document]" and u = alice
         and s = with_document
         and env = "failing_env 60000000" and env' = "calm_env 120000000"
         and upd = "text_update ''what is this?''" and upd' = "text_update ''and now?''"
         and m = ?m and m' = ?m' and u' = alice,
         OF m u m' u' refl cd r [where t = 60000000 and ctx = "[1 \<mapsto> with_document]"]]
  have 2: "map_option history
       (ctx_out (handle_text_message (failing_env 60000000) (text_update ''what is this?'')
                   [1 \<mapsto> with_document]) 1) = Some greeting
   \<and> map_option pdf_text
       (ctx_out (handle_text_message (failing_env 60000000) (text_update ''what is this?'')
                   [1 \<mapsto> with_document]) 1) = Some (Some ''contract text'')"
    by (auto simp: text_update_fields example_fields clocks)
  from failed_turn_attachments [where ctx = "[1 \<mapsto> with_image]" and u = alice and s = with_image
         and env = "failing_env 660000000" and env' = "calm_env 660000001"
         and upd = "text_update ''what is this?''" and upd' = "text_update ''and now?''"
         and m = ?m and m' = ?m' and u' = alice,
         OF m u m' u' refl ci r [where t = 660000000 and ctx = "[1 \<mapsto> with_image]"]]
  have 3: "map_option image_data
       (ctx_out (handle_text_message (failing_env 660000000) (text_update ''what is this?'')
                   [1 \<mapsto> with_image]) 1) = Some None
   \<and> map images
       (submitted (effects (handle_text_message (calm_env 660000001) (text_update ''and now?'')
          (ctx_out (handle_text_message (failing_env 660000000) (text_update ''what is this?'')
                      [1 \<mapsto> with_image]))))) = [[]]"
    using i by (auto simp: text_update_fields example_fields clocks images_simps)
  from i late 1 2 3 show ?thesis
    by blast
qed

text \<open>
  Claim C9 as stated does not hold when the failing text message is handled more than ten
  minutes after \<^verbatim>\<open>last_seen\<close>: the idle reset has replaced the session before the
  \<^verbatim>\<open>try\<close> block, so the PDF text and the history are gone although the turn failed.
\<close>

theorem failed_turn_attachments_counterexample:
  "map_option pdf_text ([1 \<mapsto> with_document] 1) = Some (Some ''contract text'')
   \<and> map_option history ([1 \<mapsto> with_document] 1) = Some greeting
   \<and> greeting \<noteq> []
   \<and> effects (handle_text_message (failing_env 660000000) (text_update ''hi'')
                 [1 \<mapsto> with_document]) =
       [Reply_text ''Our conversation history has been cleared.'' None,
        Send_chat_action 7 TYPING,
        Completions_create ''gpt-4o-mini''
          [system_prompt, \<lparr>role = User, content = Plain ''hi''\<rparr>],
        Logger_error ''Error generating response: timeout'',
        Reply_text ''Sorry, I encountered an error while processing your request. Please try again.''
          None]
   \<and> map_option pdf_text
       (ctx_out (handle_text_message (failing_env 660000000) (text_update ''hi'')
                   [1 \<mapsto> with_document]) 1) = Some None
   \<and> map_option history
       (ctx_out (handle_text_message (failing_env 660000000) (text_update ''hi'')
                   [1 \<mapsto> with_document]) 1) = Some []"
proof -
  have "pdf_text (fresh_session 660000000) = None" "history (fresh_session 660000000) = []"
    by (simp_all add: fresh_session_def)
  moreover have "greeting \<noteq> []"
    by (simp add: greeting_def)
  moreover have "effects (handle_text_message (failing_env 660000000) (text_update ''hi'')
                 [1 \<mapsto> with_document]) =
       [Reply_text ''Our conversation history has been cleared.'' None,
        Send_chat_action 7 TYPING,
        Completions_create ''gpt-4o-mini''
          [system_prompt, \<lparr>role = User, content = Plain ''hi''\<rparr>],
        Logger_error ''Error generating response: timeout'',
        Reply_text ''Sorry, I encountered an error while processing your request. Please try again.''
          None]"
    unfolding handle_text_message_wf [OF text_update_wf]
    by (simp add: Let_def text_update_fields clocks idle_examples entering_examples
          assemble_fresh_session respond_failing returns_def notices)
  ultimately show ?thesis
    by (simp add: text_update_session entering_examples assemble_fresh_session respond_failing
          example_fields)
qed

end
